theory Spec2Isabelle
  imports Main "HOL-Library.Sublist" "HOL-Library.Multiset"
begin

section \<open>Python values: strings, errors, lists, dictionaries\<close>

text \<open>
  A Python \<open>str\<close> is a sequence of Unicode code points and \<open>len\<close> counts code points,
  so a string is modelled as the list of its code points. ASCII literals of the source are
  written with \<open>ascii\<close>; the Japanese literals are given by their code points.
\<close>

type_synonym pystr = "nat list"

definition ascii :: "string \<Rightarrow> pystr" where
  "ascii s = map of_char s"

datatype py_error = KeyError | IndexError | ValueError | TypeError | AttributeError | OverflowError

text \<open>\<open>sep.join(parts)\<close>\<close>

fun join :: "pystr \<Rightarrow> pystr list \<Rightarrow> pystr" where
  "join sep [] = []"
| "join sep [x] = x"
| "join sep (x # y # ys) = x @ sep @ join sep (y # ys)"

text \<open>\<open>str(n)\<close> for an integer: decimal digits, with a minus sign for negative numbers.\<close>

fun str_nat :: "nat \<Rightarrow> pystr" where
  "str_nat n = (if n < 10 then [48 + n] else str_nat (n div 10) @ [48 + n mod 10])"

declare str_nat.simps [simp del]

definition str_int :: "int \<Rightarrow> pystr" where
  "str_int i = (if i < 0 then 45 # str_nat (nat (- i)) else str_nat (nat i))"

text \<open>
  \<open>xs[i]\<close>: a negative index counts from the end, an index out of range raises
  \<open>IndexError\<close>. \<open>py_pos\<close> is the position that the index denotes.
\<close>

definition py_pos :: "nat \<Rightarrow> int \<Rightarrow> nat option" where
  "py_pos n i =
     (let j = (if i < 0 then int n + i else i)
      in if 0 \<le> j \<and> j < int n then Some (nat j) else None)"

definition py_index :: "'a list \<Rightarrow> int \<Rightarrow> py_error + 'a" where
  "py_index xs i = (case py_pos (length xs) i of None \<Rightarrow> Inl IndexError | Some j \<Rightarrow> Inr (xs ! j))"

text \<open>
  A \<open>dict\<close> keeps its keys in insertion order; assigning to a key that is present
  replaces the value in place, assigning to a new key appends it.
\<close>

fun dict_set :: "('k \<times> 'v) list \<Rightarrow> 'k \<Rightarrow> 'v \<Rightarrow> ('k \<times> 'v) list" where
  "dict_set [] k v = [(k, v)]"
| "dict_set ((k', v') # d) k v =
     (if k' = k then (k, v) # d else (k', v') # dict_set d k v)"

definition dict_values :: "('k \<times> 'v) list \<Rightarrow> 'v list" where
  "dict_values d = map snd d"

definition dict_keys :: "('k \<times> 'v) list \<Rightarrow> 'k list" where
  "dict_keys d = map fst d"

text \<open>
  A JSON document as \<open>json.load\<close> returns it: objects are dictionaries (keys in document
  order). Numbers are integers; the entities of this program store no floats.
\<close>

datatype json =
    JNull
  | JBool bool
  | JInt int
  | JStr pystr
  | JList "json list"
  | JObj "(pystr \<times> json) list"

definition JStrs :: "pystr list \<Rightarrow> json" where
  "JStrs xs = JList (map JStr xs)"

text \<open>
  The values that \<open>dataclasses.asdict\<close> produces and \<open>json.dump\<close> consumes: the JSON
  types, and members of an \<open>Enum\<close> (\<open>PEnum v\<close> is the member whose \<open>.value\<close> is \<open>v\<close>),
  which \<open>asdict\<close> leaves as they are.
\<close>

datatype pyval =
    PNone
  | PBool bool
  | PInt int
  | PStr pystr
  | PList "pyval list"
  | PDict "(pystr \<times> pyval) list"
  | PEnum pystr

definition PStrs :: "pystr list \<Rightarrow> pyval" where
  "PStrs xs = PList (map PStr xs)"

text \<open>The first error of a sequence of results, or all the values.\<close>

fun collect :: "('e + 'a) list \<Rightarrow> 'e + 'a list" where
  "collect [] = Inr []"
| "collect (x # xs) =
     (case x of
        Inl e \<Rightarrow> Inl e
      | Inr v \<Rightarrow> (case collect xs of Inl e \<Rightarrow> Inl e | Inr vs \<Rightarrow> Inr (v # vs)))"

text \<open>
  \<open>json.dump\<close> followed by \<open>json.load\<close>: the document that is read back, or
  \<open>TypeError\<close> (``Object of type ... is not JSON serializable'') at the first value that
  is not of a JSON type.
\<close>

fun json_dump :: "pyval \<Rightarrow> py_error + json" where
  "json_dump PNone = Inr JNull"
| "json_dump (PBool b) = Inr (JBool b)"
| "json_dump (PInt i) = Inr (JInt i)"
| "json_dump (PStr s) = Inr (JStr s)"
| "json_dump (PEnum v) = Inl TypeError"
| "json_dump (PList xs) =
     (case collect (map json_dump xs) of Inl e \<Rightarrow> Inl e | Inr js \<Rightarrow> Inr (JList js))"
| "json_dump (PDict kvs) =
     (case collect (map (\<lambda>kv. case json_dump (snd kv) of
                                  Inl e \<Rightarrow> Inl e
                                | Inr j \<Rightarrow> Inr (fst kv, j)) kvs) of
        Inl e \<Rightarrow> Inl e
      | Inr kjs \<Rightarrow> Inr (JObj kjs))"

text \<open>\<open>copy.deepcopy\<close> of a JSON value inside \<open>asdict\<close>.\<close>

fun pyval_of_json :: "json \<Rightarrow> pyval" where
  "pyval_of_json JNull = PNone"
| "pyval_of_json (JBool b) = PBool b"
| "pyval_of_json (JInt i) = PInt i"
| "pyval_of_json (JStr s) = PStr s"
| "pyval_of_json (JList xs) = PList (map pyval_of_json xs)"
| "pyval_of_json (JObj kvs) = PDict (map (\<lambda>kv. (fst kv, pyval_of_json (snd kv))) kvs)"

text \<open>
  A file of the data directory: absent, holding a JSON document, or holding text that
  \<open>json.load\<close> rejects (what an interrupted \<open>json.dump\<close> leaves behind).
\<close>

datatype data_file = Absent | Invalid | Document json

section \<open>story\_manager.py: the data model\<close>

datatype ChapterStatus = PLANNED | OUTLINE | DRAFTING | DRAFT | REVISION | COMPLETED

text \<open>\<open>ChapterStatus.value\<close> and the constructor \<open>ChapterStatus(value)\<close>.\<close>

fun ChapterStatus_value :: "ChapterStatus \<Rightarrow> pystr" where
  "ChapterStatus_value PLANNED = ascii ''planned''"
| "ChapterStatus_value OUTLINE = ascii ''outline''"
| "ChapterStatus_value DRAFTING = ascii ''drafting''"
| "ChapterStatus_value DRAFT = ascii ''draft''"
| "ChapterStatus_value REVISION = ascii ''revision''"
| "ChapterStatus_value COMPLETED = ascii ''completed''"

definition ChapterStatus_of_value :: "pystr \<Rightarrow> py_error + ChapterStatus" where
  "ChapterStatus_of_value s =
     (if s = ascii ''planned'' then Inr PLANNED
      else if s = ascii ''outline'' then Inr OUTLINE
      else if s = ascii ''drafting'' then Inr DRAFTING
      else if s = ascii ''draft'' then Inr DRAFT
      else if s = ascii ''revision'' then Inr REVISION
      else if s = ascii ''completed'' then Inr COMPLETED
      else Inl ValueError)"

record Scene =
  scene_id :: pystr
  scene_name :: pystr
  scene_description :: pystr
  scene_location :: pystr
  scene_characters :: "pystr list"
  scene_purpose :: pystr
  scene_content :: pystr
  scene_word_count :: int
  scene_notes :: pystr
  scene_plot_threads :: "pystr list"

record Chapter =
  chapter_id :: pystr
  chapter_number :: int
  chapter_title :: pystr
  chapter_summary :: pystr
  chapter_scenes :: "Scene list"
  chapter_status :: ChapterStatus
  chapter_target_word_count :: int
  chapter_actual_word_count :: int
  chapter_notes :: pystr
  chapter_created_at :: pystr
  chapter_updated_at :: pystr

record Story =
  story_id :: pystr
  story_title :: pystr
  story_genre :: pystr
  story_summary :: pystr
  story_chapters :: "Chapter list"
  story_target_word_count :: int
  story_current_word_count :: int
  story_status :: pystr
  story_created_at :: pystr
  story_updated_at :: pystr

text \<open>
  The constructors with their \<open>__post_init__\<close>. A field whose default is \<open>None\<close> is an
  option argument; \<open>now\<close> is \<open>datetime.now().isoformat()\<close>.
\<close>

definition Scene_init ::
  "pystr \<Rightarrow> pystr \<Rightarrow> pystr \<Rightarrow> pystr \<Rightarrow> pystr list \<Rightarrow> pystr \<Rightarrow> pystr \<Rightarrow> int \<Rightarrow> pystr
     \<Rightarrow> pystr list option \<Rightarrow> Scene" where
  "Scene_init i name description location characters purpose content word_count notes plot_threads =
     \<lparr> scene_id = i, scene_name = name, scene_description = description,
       scene_location = location, scene_characters = characters, scene_purpose = purpose,
       scene_content = content,
       scene_word_count = (if content \<noteq> [] then int (length content) else word_count),
       scene_notes = notes,
       scene_plot_threads = (case plot_threads of None \<Rightarrow> [] | Some p \<Rightarrow> p) \<rparr>"

definition Chapter_update_word_count :: "Chapter \<Rightarrow> Chapter" where
  "Chapter_update_word_count c =
     c\<lparr>chapter_actual_word_count := sum_list (map scene_word_count (chapter_scenes c))\<rparr>"

definition Chapter_init ::
  "pystr \<Rightarrow> pystr \<Rightarrow> int \<Rightarrow> pystr \<Rightarrow> pystr \<Rightarrow> Scene list \<Rightarrow> ChapterStatus \<Rightarrow> int \<Rightarrow> int \<Rightarrow> pystr
     \<Rightarrow> pystr option \<Rightarrow> pystr option \<Rightarrow> Chapter" where
  "Chapter_init now i number title summary scenes status target_word_count actual_word_count notes
       created_at updated_at =
     (let created = (case created_at of None \<Rightarrow> now | Some t \<Rightarrow> t);
          updated = (case updated_at of None \<Rightarrow> created | Some t \<Rightarrow> t)
      in Chapter_update_word_count
           \<lparr> chapter_id = i, chapter_number = number, chapter_title = title,
             chapter_summary = summary, chapter_scenes = scenes, chapter_status = status,
             chapter_target_word_count = target_word_count,
             chapter_actual_word_count = actual_word_count, chapter_notes = notes,
             chapter_created_at = created, chapter_updated_at = updated \<rparr>)"

definition Story_update_word_count :: "Story \<Rightarrow> Story" where
  "Story_update_word_count s =
     s\<lparr>story_current_word_count := sum_list (map chapter_actual_word_count (story_chapters s))\<rparr>"

definition Story_init ::
  "pystr \<Rightarrow> pystr \<Rightarrow> pystr \<Rightarrow> pystr \<Rightarrow> pystr \<Rightarrow> Chapter list \<Rightarrow> int \<Rightarrow> int \<Rightarrow> pystr
     \<Rightarrow> pystr option \<Rightarrow> pystr option \<Rightarrow> Story" where
  "Story_init now i title genre summary chapters target_word_count current_word_count status
       created_at updated_at =
     (let created = (case created_at of None \<Rightarrow> now | Some t \<Rightarrow> t);
          updated = (case updated_at of None \<Rightarrow> created | Some t \<Rightarrow> t)
      in Story_update_word_count
           \<lparr> story_id = i, story_title = title, story_genre = genre, story_summary = summary,
             story_chapters = chapters, story_target_word_count = target_word_count,
             story_current_word_count = current_word_count, story_status = status,
             story_created_at = created, story_updated_at = updated \<rparr>)"

section \<open>story\_manager.py: persistence\<close>

text \<open>
  \<open>asdict\<close> turns every dataclass into a dictionary of its fields, in declaration order,
  recursively; the chapter status stays a member of \<open>ChapterStatus\<close>.
\<close>

definition asdict_scene :: "Scene \<Rightarrow> pyval" where
  "asdict_scene s = PDict
     [(ascii ''id'', PStr (scene_id s)),
      (ascii ''name'', PStr (scene_name s)),
      (ascii ''description'', PStr (scene_description s)),
      (ascii ''location'', PStr (scene_location s)),
      (ascii ''characters'', PStrs (scene_characters s)),
      (ascii ''purpose'', PStr (scene_purpose s)),
      (ascii ''content'', PStr (scene_content s)),
      (ascii ''word_count'', PInt (scene_word_count s)),
      (ascii ''notes'', PStr (scene_notes s)),
      (ascii ''plot_threads'', PStrs (scene_plot_threads s))]"

definition asdict_chapter :: "Chapter \<Rightarrow> pyval" where
  "asdict_chapter c = PDict
     [(ascii ''id'', PStr (chapter_id c)),
      (ascii ''number'', PInt (chapter_number c)),
      (ascii ''title'', PStr (chapter_title c)),
      (ascii ''summary'', PStr (chapter_summary c)),
      (ascii ''scenes'', PList (map asdict_scene (chapter_scenes c))),
      (ascii ''status'', PEnum (ChapterStatus_value (chapter_status c))),
      (ascii ''target_word_count'', PInt (chapter_target_word_count c)),
      (ascii ''actual_word_count'', PInt (chapter_actual_word_count c)),
      (ascii ''notes'', PStr (chapter_notes c)),
      (ascii ''created_at'', PStr (chapter_created_at c)),
      (ascii ''updated_at'', PStr (chapter_updated_at c))]"

definition asdict_story :: "Story \<Rightarrow> pyval" where
  "asdict_story s = PDict
     [(ascii ''id'', PStr (story_id s)),
      (ascii ''title'', PStr (story_title s)),
      (ascii ''genre'', PStr (story_genre s)),
      (ascii ''summary'', PStr (story_summary s)),
      (ascii ''chapters'', PList (map asdict_chapter (story_chapters s))),
      (ascii ''target_word_count'', PInt (story_target_word_count s)),
      (ascii ''current_word_count'', PInt (story_current_word_count s)),
      (ascii ''status'', PStr (story_status s)),
      (ascii ''created_at'', PStr (story_created_at s)),
      (ascii ''updated_at'', PStr (story_updated_at s))]"

text \<open>
  The loop of \<open>save_stories\<close> over \<open>story_dict['chapters']\<close> that replaces each
  chapter's status by \<open>chapter['status'].value\<close>.
\<close>

definition chapter_status_value :: "pyval \<Rightarrow> pyval" where
  "chapter_status_value chapter =
     (case chapter of
        PDict kv \<Rightarrow>
          (case map_of kv (ascii ''status'') of
             Some (PEnum v) \<Rightarrow> PDict (dict_set kv (ascii ''status'') (PStr v))
           | _ \<Rightarrow> chapter)
      | _ \<Rightarrow> chapter)"

definition story_status_values :: "pyval \<Rightarrow> pyval" where
  "story_status_values story_dict =
     (case story_dict of
        PDict kv \<Rightarrow>
          (case map_of kv (ascii ''chapters'') of
             Some (PList chapters) \<Rightarrow>
               PDict (dict_set kv (ascii ''chapters'') (PList (map chapter_status_value chapters)))
           | _ \<Rightarrow> story_dict)
      | _ \<Rightarrow> story_dict)"

text \<open>
  The manager: the dictionary of stories, the current story, and the stories file.
  \<open>save_stories\<close> catches every exception, so a failing \<open>json.dump\<close> only leaves an
  unreadable file.
\<close>

record StoryManager =
  stories :: "(pystr \<times> Story) list"
  current_story_id :: "pystr option"
  stories_file :: data_file

definition save_stories :: "StoryManager \<Rightarrow> StoryManager" where
  "save_stories m =
     (case json_dump (PDict (map (\<lambda>kv. (fst kv, story_status_values (asdict_story (snd kv))))
                               (stories m))) of
        Inl e \<Rightarrow> m\<lparr>stories_file := Invalid\<rparr>
      | Inr doc \<Rightarrow> m\<lparr>stories_file := Document doc\<rparr>)"

section \<open>story\_manager.py: the operations\<close>

text \<open>
  \<open>create_story\<close>; \<open>ts\<close> is \<open>int(datetime.now().timestamp())\<close> and \<open>now\<close> the time
  read by the constructor.
\<close>

definition create_story ::
  "int \<Rightarrow> pystr \<Rightarrow> pystr \<Rightarrow> pystr \<Rightarrow> pystr \<Rightarrow> StoryManager \<Rightarrow> pystr \<times> StoryManager" where
  "create_story ts now title genre summary m =
     (let sid = ascii ''story_'' @ str_int (int (length (stories m)) + 1) @ ascii ''_'' @ str_int ts;
          story = Story_init now sid title genre summary [] 50000 0 (ascii ''planning'') None None
      in (sid, save_stories (m\<lparr>stories := dict_set (stories m) sid story,
                                current_story_id := Some sid\<rparr>)))"

text \<open>
  \<open>add_chapter\<close>; \<open>now\<close> is the time read by the chapter's constructor, \<open>now'\<close> the
  time written to the story's \<open>updated_at\<close>.
\<close>

definition add_chapter ::
  "pystr \<Rightarrow> pystr \<Rightarrow> pystr \<Rightarrow> pystr \<Rightarrow> pystr \<Rightarrow> StoryManager \<Rightarrow> py_error + pystr \<times> StoryManager" where
  "add_chapter now now' sid title summary m =
     (case map_of (stories m) sid of
        None \<Rightarrow> Inl ValueError
      | Some story \<Rightarrow>
          (let number = int (length (story_chapters story)) + 1;
               cid = sid @ ascii ''_chapter_'' @ str_int number;
               chapter = Chapter_init now cid number title summary [] PLANNED 3000 0 [] None None;
               story' = story\<lparr>story_chapters := story_chapters story @ [chapter],
                               story_updated_at := now'\<rparr>
           in Inr (cid, save_stories (m\<lparr>stories := dict_set (stories m) sid story'\<rparr>))))"

definition add_scene ::
  "pystr \<Rightarrow> pystr \<Rightarrow> int \<Rightarrow> pystr \<Rightarrow> pystr \<Rightarrow> pystr \<Rightarrow> pystr list \<Rightarrow> pystr \<Rightarrow> StoryManager
     \<Rightarrow> py_error + pystr \<times> StoryManager" where
  "add_scene now sid number name description location characters purpose m =
     (case map_of (stories m) sid of
        None \<Rightarrow> Inl ValueError
      | Some story \<Rightarrow>
          if number > int (length (story_chapters story)) then Inl ValueError
          else
            (case py_pos (length (story_chapters story)) (number - 1) of
               None \<Rightarrow> Inl IndexError
             | Some i \<Rightarrow>
                 (let chapter = story_chapters story ! i;
                      scid = chapter_id chapter @ ascii ''_scene_''
                               @ str_int (int (length (chapter_scenes chapter)) + 1);
                      scene = Scene_init scid name description location characters purpose
                                [] 0 [] None;
                      chapter' = chapter\<lparr>chapter_scenes := chapter_scenes chapter @ [scene]\<rparr>;
                      story' = story\<lparr>story_chapters := (story_chapters story)[i := chapter'],
                                      story_updated_at := now\<rparr>
                  in Inr (scid, save_stories (m\<lparr>stories := dict_set (stories m) sid story'\<rparr>)))))"

definition update_scene_content ::
  "pystr \<Rightarrow> pystr \<Rightarrow> int \<Rightarrow> int \<Rightarrow> pystr \<Rightarrow> StoryManager \<Rightarrow> py_error + StoryManager" where
  "update_scene_content now sid number scene_index content m =
     (case map_of (stories m) sid of
        None \<Rightarrow> Inl KeyError
      | Some story \<Rightarrow>
          (case py_pos (length (story_chapters story)) (number - 1) of
             None \<Rightarrow> Inl IndexError
           | Some i \<Rightarrow>
               (let chapter = story_chapters story ! i in
                case py_pos (length (chapter_scenes chapter)) scene_index of
                  None \<Rightarrow> Inl IndexError
                | Some j \<Rightarrow>
                    (let scene = chapter_scenes chapter ! j;
                         scene' = scene\<lparr>scene_content := content,
                                        scene_word_count := int (length content)\<rparr>;
                         chapter' = Chapter_update_word_count
                                      (chapter\<lparr>chapter_scenes := (chapter_scenes chapter)[j := scene']\<rparr>);
                         story' = (Story_update_word_count
                                     (story\<lparr>story_chapters := (story_chapters story)[i := chapter']\<rparr>))
                                    \<lparr>story_updated_at := now\<rparr>
                     in Inr (save_stories (m\<lparr>stories := dict_set (stories m) sid story'\<rparr>))))))"

section \<open>story\_manager.py: sequences of calls\<close>

text \<open>
  A call of one of the four operations that change the store, with its arguments (and the
  times that it reads from the clock). \<open>call\<close> is the store after the call: every one of
  the operations raises before it assigns anything, so a call that raises leaves the store
  as it was.
\<close>

datatype story_call =
    CreateStory int pystr pystr pystr pystr
  | AddChapter pystr pystr pystr pystr pystr
  | AddScene pystr pystr int pystr pystr pystr "pystr list" pystr
  | UpdateSceneContent pystr pystr int int pystr

fun call :: "story_call \<Rightarrow> StoryManager \<Rightarrow> StoryManager" where
  "call (CreateStory ts now title genre summary) m = snd (create_story ts now title genre summary m)"
| "call (AddChapter now now' sid title summary) m =
     (case add_chapter now now' sid title summary m of Inl e \<Rightarrow> m | Inr r \<Rightarrow> snd r)"
| "call (AddScene now sid number name description location chars purpose) m =
     (case add_scene now sid number name description location chars purpose m of
        Inl e \<Rightarrow> m | Inr r \<Rightarrow> snd r)"
| "call (UpdateSceneContent now sid number scene_index content) m =
     (case update_scene_content now sid number scene_index content m of Inl e \<Rightarrow> m | Inr m' \<Rightarrow> m')"

fun calls :: "story_call list \<Rightarrow> StoryManager \<Rightarrow> StoryManager" where
  "calls [] m = m"
| "calls (c # cs) m = calls cs (call c m)"

text \<open>
  The word counts of the store: a scene counts the characters of its content, a chapter
  sums the content lengths of its scenes, a story sums its chapters.
\<close>

definition scene_consistent :: "Scene \<Rightarrow> bool" where
  "scene_consistent s = (scene_word_count s = int (length (scene_content s)))"

definition chapter_consistent :: "Chapter \<Rightarrow> bool" where
  "chapter_consistent c =
     (chapter_actual_word_count c = sum_list (map (\<lambda>s. int (length (scene_content s))) (chapter_scenes c))
      \<and> list_all scene_consistent (chapter_scenes c))"

definition story_consistent :: "Story \<Rightarrow> bool" where
  "story_consistent s =
     (story_current_word_count s = sum_list (map chapter_actual_word_count (story_chapters s))
      \<and> list_all chapter_consistent (story_chapters s))"

definition store_consistent :: "StoryManager \<Rightarrow> bool" where
  "store_consistent m = list_all story_consistent (dict_values (stories m))"

text \<open>
  The ids that \<open>create_story\<close> generates begin with \<open>story_\<close>, the running index and
  \<open>_\<close>. In a store whose ids the manager generated, every id carries an index between 1
  and the number of stories.
\<close>

definition story_id_prefix :: "nat \<Rightarrow> pystr" where
  "story_id_prefix i = ascii ''story_'' @ str_int (int i) @ ascii ''_''"

definition ids_generated :: "StoryManager \<Rightarrow> bool" where
  "ids_generated m =
     (let ks = dict_keys (stories m)
      in list_all (\<lambda>k. list_ex (\<lambda>i. prefix (story_id_prefix i) k) [1..<Suc (length ks)]) ks)"

section \<open>story\_manager.py: contexts and suggestions\<close>

text \<open>The string literals of the source, by code point: brackets and labels.\<close>

definition lit_lb :: pystr where "lit_lb = [12304]"
definition lit_rb :: pystr where "lit_rb = [12305]"
definition lit_nl :: pystr where "lit_nl = [10]"

text \<open>\<open>get_story_context\<close>: the lines of one scene (numbered from \<open>i\<close>) and of one chapter.\<close>

fun story_scene_lines :: "nat \<Rightarrow> Scene list \<Rightarrow> pystr list" where
  "story_scene_lines i [] = []"
| "story_scene_lines i (s # ss) =
     [ascii ''    '' @ str_int (int i) @ ascii ''. '' @ scene_name s @ ascii '' ('' @ scene_location s
        @ ascii '')'',
      ascii ''       '' @ [30446, 30340, 58, 32] @ scene_purpose s]
     @ (if scene_content s \<noteq> []
        then [ascii ''       '' @ [25991, 23383, 25968, 58, 32] @ str_int (scene_word_count s)]
        else [])
     @ story_scene_lines (Suc i) ss"

definition story_chapter_lines :: "Chapter \<Rightarrow> pystr list" where
  "story_chapter_lines c =
     [[31532] @ str_int (chapter_number c) @ [31456, 58, 32] @ chapter_title c,
      ascii ''  '' @ [27010, 35201, 58, 32] @ chapter_summary c,
      ascii ''  '' @ [29366, 24907, 58, 32] @ ChapterStatus_value (chapter_status c),
      ascii ''  '' @ [36914, 25431, 58, 32] @ str_int (chapter_actual_word_count c) @ ascii ''/''
        @ str_int (chapter_target_word_count c) @ [25991, 23383]]
     @ (if chapter_scenes c \<noteq> []
        then [ascii ''  '' @ [12471, 12540, 12531, 58]] @ story_scene_lines 1 (chapter_scenes c)
        else [])
     @ [[]]"

definition get_story_context :: "StoryManager \<Rightarrow> pystr \<Rightarrow> pystr" where
  "get_story_context m sid =
     (case map_of (stories m) sid of
        None \<Rightarrow> []
      | Some story \<Rightarrow>
          join lit_nl
            ([ascii ''=== '' @ [29289, 35486, 58, 32] @ story_title story @ ascii '' ==='',
              [12472, 12515, 12531, 12523, 58, 32] @ story_genre story,
              [12354, 12425, 12377, 12376, 58, 32] @ story_summary story,
              [36914, 25431, 58, 32] @ str_int (story_current_word_count story) @ ascii ''/''
                @ str_int (story_target_word_count story) @ [25991, 23383],
              [],
              ascii ''=== '' @ [31456, 27083, 25104] @ ascii '' ==='']
             @ concat (map story_chapter_lines (story_chapters story))))"

text \<open>
  \<open>get_current_chapter_context\<close>. The search loop stops at the first chapter whose status
  is \<open>DRAFTING\<close> or \<open>OUTLINE\<close>.
\<close>

fun find_current_chapter :: "Chapter list \<Rightarrow> Chapter option" where
  "find_current_chapter [] = None"
| "find_current_chapter (c # cs) =
     (if chapter_status c \<in> set [DRAFTING, OUTLINE] then Some c else find_current_chapter cs)"

fun chapter_scene_lines :: "nat \<Rightarrow> Scene list \<Rightarrow> pystr list" where
  "chapter_scene_lines i [] = []"
| "chapter_scene_lines i (s # ss) =
     [[12304, 12471, 12540, 12531] @ str_int (int i) @ ascii '': '' @ scene_name s @ lit_rb,
      [22580, 25152, 58, 32] @ scene_location s,
      [30331, 22580, 20154, 29289, 58, 32] @ join (ascii '', '') (scene_characters s),
      [30446, 30340, 58, 32] @ scene_purpose s]
     @ (if scene_content s \<noteq> [] then [[20869, 23481, 58], scene_content s] else [])
     @ [[]]
     @ chapter_scene_lines (Suc i) ss"

definition current_chapter_lines :: "Chapter \<Rightarrow> pystr list" where
  "current_chapter_lines c =
     [ascii ''=== '' @ [29694, 22312, 12398, 31456, 58, 32, 31532] @ str_int (chapter_number c)
        @ [31456, 32] @ chapter_title c @ ascii '' ==='',
      [27010, 35201, 58, 32] @ chapter_summary c,
      []]
     @ chapter_scene_lines 1 (chapter_scenes c)"

definition get_current_chapter_context :: "StoryManager \<Rightarrow> pystr \<Rightarrow> py_error + pystr" where
  "get_current_chapter_context m sid =
     (case map_of (stories m) sid of
        None \<Rightarrow> Inl KeyError
      | Some story \<Rightarrow>
          (let current_chapter = find_current_chapter (story_chapters story);
               current_chapter =
                 (case current_chapter of
                    None \<Rightarrow> (if story_chapters story \<noteq> [] then Some (last (story_chapters story))
                             else None)
                  | Some c \<Rightarrow> Some c)
           in case current_chapter of
                None \<Rightarrow> Inr []
              | Some c \<Rightarrow> Inr (join lit_nl (current_chapter_lines c))))"

text \<open>
  Python floats in \<open>get_writing_suggestions\<close>. A finite double is a pair \<open>(m, s)\<close> that
  stands for \<open>m / 2 ^ s\<close>, where \<open>m\<close> has at most 53 significant bits. \<open>round53\<close> rounds
  an integer to 53 significant bits, ties to even, as the hardware does. \<open>int * float\<close>
  converts the integer first (\<open>OverflowError\<close> when it does not fit a double) and rounds
  the product; a product of an integer with \<open>0.1\<close>, \<open>0.5\<close> or \<open>0.8\<close> neither overflows
  nor falls into the subnormal range. \<open>int < float\<close> compares the exact values.
\<close>

type_synonym pyfloat = "int \<times> nat"

fun bitlen :: "nat \<Rightarrow> nat" where
  "bitlen n = (if n = 0 then 0 else Suc (bitlen (n div 2)))"

declare bitlen.simps [simp del]

definition round53_nat :: "nat \<Rightarrow> nat" where
  "round53_nat n =
     (let b = bitlen n in
      if b \<le> 53 then n
      else
        (let k = b - 53; q = n div 2 ^ k; r = n mod 2 ^ k; h = 2 ^ (k - 1)
         in if r < h \<or> (r = h \<and> even q) then q * 2 ^ k else (q + 1) * 2 ^ k))"

definition round53 :: "int \<Rightarrow> int" where
  "round53 i = (if i < 0 then - int (round53_nat (nat (- i))) else int (round53_nat (nat i)))"

definition float_of_int :: "int \<Rightarrow> py_error + pyfloat" where
  "float_of_int i = (let r = round53 i in if \<bar>r\<bar> \<ge> 2 ^ 1024 then Inl OverflowError else Inr (r, 0))"

definition float_mul :: "pyfloat \<Rightarrow> pyfloat \<Rightarrow> pyfloat" where
  "float_mul x y = (round53 (fst x * fst y), snd x + snd y)"

definition int_lt_float :: "int \<Rightarrow> pyfloat \<Rightarrow> bool" where
  "int_lt_float w x = (w * 2 ^ snd x < fst x)"

text \<open>The literals \<open>0.1\<close>, \<open>0.5\<close> and \<open>0.8\<close> as doubles.\<close>

definition float_0_1 :: pyfloat where "float_0_1 = (3602879701896397, 55)"
definition float_0_5 :: pyfloat where "float_0_5 = (1, 1)"
definition float_0_8 :: pyfloat where "float_0_8 = (3602879701896397, 52)"

text \<open>The four progress suggestions and the two chapter suggestions.\<close>

definition suggest_introduction :: pystr where
  "suggest_introduction = [29289, 35486, 12398, 23566, 20837, 37096, 20998, 12434, 12418, 12387,
     12392, 35443, 12375, 12367, 25551, 20889, 12375, 12414, 12375, 12423, 12358]"

definition suggest_relationships :: pystr where
  "suggest_relationships = [12461, 12515, 12521, 12463, 12479, 12540, 12398, 38306, 20418, 24615,
     12434, 28145, 12367, 25496, 12426, 19979, 12370, 12414, 12375, 12423, 12358]"

definition suggest_tension :: pystr where
  "suggest_tension = [12463, 12521, 12452, 12510, 12483, 12463, 12473, 12395, 21521, 12369, 12390,
     32202, 24373, 24863, 12434, 39640, 12417, 12414, 12375, 12423, 12358]"

definition suggest_ending :: pystr where
  "suggest_ending = [32080, 26411, 12395, 21521, 12369, 12390, 20239, 32218, 12434, 22238, 21454,
     12375, 12390, 12356, 12365, 12414, 12375, 12423, 12358]"

definition suggest_outline :: "int \<Rightarrow> pystr" where
  "suggest_outline n = [31532] @ str_int n @ [31456, 12398, 12450, 12454, 12488, 12521, 12452,
     12531, 12434, 20316, 25104, 12375, 12414, 12375, 12423, 12358]"

definition suggest_start :: "int \<Rightarrow> pystr" where
  "suggest_start n = [31532] @ str_int n @ [31456, 12398, 22519, 31558, 12434, 38283, 22987,
     12375, 12414, 12375, 12423, 12358]"

text \<open>The loop over the chapters, appending to \<open>suggestions\<close>.\<close>

fun chapter_suggestions :: "pystr list \<Rightarrow> Chapter list \<Rightarrow> pystr list" where
  "chapter_suggestions suggestions [] = suggestions"
| "chapter_suggestions suggestions (c # cs) =
     (if chapter_status c = PLANNED
      then chapter_suggestions (suggestions @ [suggest_outline (chapter_number c)]) cs
      else if chapter_status c = OUTLINE
      then chapter_suggestions (suggestions @ [suggest_start (chapter_number c)]) cs
      else chapter_suggestions suggestions cs)"

definition get_writing_suggestions :: "StoryManager \<Rightarrow> pystr \<Rightarrow> py_error + pystr list" where
  "get_writing_suggestions m sid =
     (case map_of (stories m) sid of
        None \<Rightarrow> Inl KeyError
      | Some story \<Rightarrow>
          (case float_of_int (story_target_word_count story) of
             Inl e \<Rightarrow> Inl e
           | Inr target \<Rightarrow>
               (let w = story_current_word_count story;
                    suggestions =
                      (if int_lt_float w (float_mul target float_0_1) then [suggest_introduction]
                       else if int_lt_float w (float_mul target float_0_5) then [suggest_relationships]
                       else if int_lt_float w (float_mul target float_0_8) then [suggest_tension]
                       else [suggest_ending])
                in Inr (chapter_suggestions suggestions (story_chapters story)))))"

section \<open>world\_manager.py\<close>

datatype SettingType =
  GEOGRAPHY | HISTORY | CULTURE | MAGIC | TECHNOLOGY | POLITICS | RELIGION | ECONOMY

fun SettingType_value :: "SettingType \<Rightarrow> pystr" where
  "SettingType_value GEOGRAPHY = ascii ''geography''"
| "SettingType_value HISTORY = ascii ''history''"
| "SettingType_value CULTURE = ascii ''culture''"
| "SettingType_value MAGIC = ascii ''magic''"
| "SettingType_value TECHNOLOGY = ascii ''technology''"
| "SettingType_value POLITICS = ascii ''politics''"
| "SettingType_value RELIGION = ascii ''religion''"
| "SettingType_value ECONOMY = ascii ''economy''"

definition SettingType_of_value :: "pystr \<Rightarrow> py_error + SettingType" where
  "SettingType_of_value s =
     (if s = ascii ''geography'' then Inr GEOGRAPHY
      else if s = ascii ''history'' then Inr HISTORY
      else if s = ascii ''culture'' then Inr CULTURE
      else if s = ascii ''magic'' then Inr MAGIC
      else if s = ascii ''technology'' then Inr TECHNOLOGY
      else if s = ascii ''politics'' then Inr POLITICS
      else if s = ascii ''religion'' then Inr RELIGION
      else if s = ascii ''economy'' then Inr ECONOMY
      else Inl ValueError)"

text \<open>
  The three dataclasses. \<open>details\<close> is a \<open>Dict[str, Any]\<close> that arrives as JSON in a
  request body, so its values are JSON values.
\<close>

record WorldSetting =
  setting_id :: pystr
  setting_name :: pystr
  setting_type :: SettingType
  setting_description :: pystr
  setting_details :: "(pystr \<times> json) list"
  setting_related_settings :: "pystr list"
  setting_created_at :: pystr
  setting_updated_at :: pystr

record TimelineEvent =
  event_id :: pystr
  event_name :: pystr
  event_description :: pystr
  event_year :: int
  event_month :: "int option"
  event_day :: "int option"
  event_importance :: int
  event_related_characters :: "pystr list"
  event_related_settings :: "pystr list"
  event_consequences :: "pystr list"

record PlotThread =
  plot_id :: pystr
  plot_name :: pystr
  plot_description :: pystr
  plot_setup_events :: "pystr list"
  plot_payoff_events :: "pystr list"
  plot_status :: pystr
  plot_importance :: int
  plot_related_characters :: "pystr list"

definition list_or_empty :: "'a list option \<Rightarrow> 'a list" where
  "list_or_empty xs = (case xs of None \<Rightarrow> [] | Some ys \<Rightarrow> ys)"

definition WorldSetting_init ::
  "pystr \<Rightarrow> pystr \<Rightarrow> pystr \<Rightarrow> SettingType \<Rightarrow> pystr \<Rightarrow> (pystr \<times> json) list \<Rightarrow> pystr list option
     \<Rightarrow> pystr option \<Rightarrow> pystr option \<Rightarrow> WorldSetting" where
  "WorldSetting_init now i name type description details related_settings created_at updated_at =
     (let created = (case created_at of None \<Rightarrow> now | Some t \<Rightarrow> t);
          updated = (case updated_at of None \<Rightarrow> created | Some t \<Rightarrow> t)
      in \<lparr> setting_id = i, setting_name = name, setting_type = type,
            setting_description = description, setting_details = details,
            setting_related_settings = list_or_empty related_settings,
            setting_created_at = created, setting_updated_at = updated \<rparr>)"

definition TimelineEvent_init ::
  "pystr \<Rightarrow> pystr \<Rightarrow> pystr \<Rightarrow> int \<Rightarrow> int option \<Rightarrow> int option \<Rightarrow> int \<Rightarrow> pystr list option
     \<Rightarrow> pystr list option \<Rightarrow> pystr list option \<Rightarrow> TimelineEvent" where
  "TimelineEvent_init i name description year month day importance related_characters
       related_settings consequences =
     \<lparr> event_id = i, event_name = name, event_description = description, event_year = year,
       event_month = month, event_day = day, event_importance = importance,
       event_related_characters = list_or_empty related_characters,
       event_related_settings = list_or_empty related_settings,
       event_consequences = list_or_empty consequences \<rparr>"

definition PlotThread_init ::
  "pystr \<Rightarrow> pystr \<Rightarrow> pystr \<Rightarrow> pystr list \<Rightarrow> pystr list \<Rightarrow> pystr \<Rightarrow> int \<Rightarrow> pystr list option
     \<Rightarrow> PlotThread" where
  "PlotThread_init i name description setup_events payoff_events status importance
       related_characters =
     \<lparr> plot_id = i, plot_name = name, plot_description = description,
       plot_setup_events = setup_events, plot_payoff_events = payoff_events,
       plot_status = status, plot_importance = importance,
       plot_related_characters = list_or_empty related_characters \<rparr>"

record WorldManager =
  settings :: "(pystr \<times> WorldSetting) list"
  timeline :: "(pystr \<times> TimelineEvent) list"
  plot_threads :: "(pystr \<times> PlotThread) list"
  settings_file :: data_file
  timeline_file :: data_file
  plots_file :: data_file

text \<open>
  \<open>asdict\<close> of the three dataclasses. The setting's \<open>type\<close> stays a member of
  \<open>SettingType\<close>; \<open>save_all\<close> does not replace it by its value.
\<close>

definition PInt_opt :: "int option \<Rightarrow> pyval" where
  "PInt_opt x = (case x of None \<Rightarrow> PNone | Some i \<Rightarrow> PInt i)"

definition asdict_setting :: "WorldSetting \<Rightarrow> pyval" where
  "asdict_setting s = PDict
     [(ascii ''id'', PStr (setting_id s)),
      (ascii ''name'', PStr (setting_name s)),
      (ascii ''type'', PEnum (SettingType_value (setting_type s))),
      (ascii ''description'', PStr (setting_description s)),
      (ascii ''details'', pyval_of_json (JObj (setting_details s))),
      (ascii ''related_settings'', PStrs (setting_related_settings s)),
      (ascii ''created_at'', PStr (setting_created_at s)),
      (ascii ''updated_at'', PStr (setting_updated_at s))]"

definition asdict_event :: "TimelineEvent \<Rightarrow> pyval" where
  "asdict_event e = PDict
     [(ascii ''id'', PStr (event_id e)),
      (ascii ''name'', PStr (event_name e)),
      (ascii ''description'', PStr (event_description e)),
      (ascii ''year'', PInt (event_year e)),
      (ascii ''month'', PInt_opt (event_month e)),
      (ascii ''day'', PInt_opt (event_day e)),
      (ascii ''importance'', PInt (event_importance e)),
      (ascii ''related_characters'', PStrs (event_related_characters e)),
      (ascii ''related_settings'', PStrs (event_related_settings e)),
      (ascii ''consequences'', PStrs (event_consequences e))]"

definition asdict_plot :: "PlotThread \<Rightarrow> pyval" where
  "asdict_plot p = PDict
     [(ascii ''id'', PStr (plot_id p)),
      (ascii ''name'', PStr (plot_name p)),
      (ascii ''description'', PStr (plot_description p)),
      (ascii ''setup_events'', PStrs (plot_setup_events p)),
      (ascii ''payoff_events'', PStrs (plot_payoff_events p)),
      (ascii ''status'', PStr (plot_status p)),
      (ascii ''importance'', PInt (plot_importance p)),
      (ascii ''related_characters'', PStrs (plot_related_characters p))]"

definition asdict_all :: "('a \<Rightarrow> pyval) \<Rightarrow> (pystr \<times> 'a) list \<Rightarrow> pyval" where
  "asdict_all f d = PDict (map (\<lambda>kv. (fst kv, f (snd kv))) d)"

text \<open>
  \<open>save_all\<close> writes the three files in turn and catches nothing: the result is the
  exception that escapes, if any, and the manager with the files as they are left. Each
  file is opened (and so truncated) before its \<open>json.dump\<close> runs.
\<close>

definition save_all :: "WorldManager \<Rightarrow> py_error option \<times> WorldManager" where
  "save_all wm =
     (case json_dump (asdict_all asdict_setting (settings wm)) of
        Inl e \<Rightarrow> (Some e, wm\<lparr>settings_file := Invalid\<rparr>)
      | Inr d1 \<Rightarrow>
          (case json_dump (asdict_all asdict_event (timeline wm)) of
             Inl e \<Rightarrow> (Some e, wm\<lparr>settings_file := Document d1, timeline_file := Invalid\<rparr>)
           | Inr d2 \<Rightarrow>
               (case json_dump (asdict_all asdict_plot (plot_threads wm)) of
                  Inl e \<Rightarrow> (Some e, wm\<lparr>settings_file := Document d1,
                                          timeline_file := Document d2, plots_file := Invalid\<rparr>)
                | Inr d3 \<Rightarrow> (None, wm\<lparr>settings_file := Document d1,
                                         timeline_file := Document d2,
                                         plots_file := Document d3\<rparr>))))"

definition add_setting :: "WorldSetting \<Rightarrow> WorldManager \<Rightarrow> py_error option \<times> WorldManager" where
  "add_setting setting wm =
     save_all (wm\<lparr>settings := dict_set (settings wm) (setting_id setting) setting\<rparr>)"

definition add_timeline_event :: "TimelineEvent \<Rightarrow> WorldManager \<Rightarrow> py_error option \<times> WorldManager" where
  "add_timeline_event event wm =
     save_all (wm\<lparr>timeline := dict_set (timeline wm) (event_id event) event\<rparr>)"

definition add_plot_thread :: "PlotThread \<Rightarrow> WorldManager \<Rightarrow> py_error option \<times> WorldManager" where
  "add_plot_thread plot wm =
     save_all (wm\<lparr>plot_threads := dict_set (plot_threads wm) (plot_id plot) plot\<rparr>)"

text \<open>
  \<open>get_world_context\<close>. \<open>fmt\<close> is Python's \<open>str()\<close> on the values of a details
  dictionary other than strings (a string is formatted as itself).
\<close>

definition py_str :: "(json \<Rightarrow> pystr) \<Rightarrow> json \<Rightarrow> pystr" where
  "py_str fmt v = (case v of JStr s \<Rightarrow> s | _ \<Rightarrow> fmt v)"

definition setting_lines :: "(json \<Rightarrow> pystr) \<Rightarrow> WorldSetting \<Rightarrow> pystr list" where
  "setting_lines fmt s =
     [lit_lb @ setting_name s @ lit_rb @ ascii ''('' @ SettingType_value (setting_type s) @ ascii '')'',
      setting_description s]
     @ (if setting_details s \<noteq> []
        then map (\<lambda>kv. ascii ''  - '' @ fst kv @ ascii '': '' @ py_str fmt (snd kv)) (setting_details s)
        else [])
     @ [[]]"

fun settings_lines ::
  "(json \<Rightarrow> pystr) \<Rightarrow> SettingType list option \<Rightarrow> WorldSetting list \<Rightarrow> pystr list" where
  "settings_lines fmt relevant_types [] = []"
| "settings_lines fmt relevant_types (s # ss) =
     (if relevant_types = None \<or> setting_type s \<in> set (the relevant_types)
      then setting_lines fmt s @ settings_lines fmt relevant_types ss
      else settings_lines fmt relevant_types ss)"

definition event_lines :: "TimelineEvent \<Rightarrow> pystr list" where
  "event_lines e =
     [lit_lb @ str_int (event_year e) @ [24180, 12305] @ event_name e, event_description e, []]"

definition plot_lines :: "PlotThread \<Rightarrow> pystr list" where
  "plot_lines p = [lit_lb @ plot_name p @ lit_rb, plot_description p, []]"

definition hdr_settings :: pystr where
  "hdr_settings = ascii ''=== '' @ [19990, 30028, 35373, 23450] @ ascii '' ===''"

definition hdr_history :: pystr where
  "hdr_history = ascii ''=== '' @ [37325, 35201, 12394, 27508, 21490] @ ascii '' ===''"

definition hdr_plots :: pystr where
  "hdr_plots = ascii ''=== '' @ [12450, 12463, 12486, 12451, 12502, 12394, 20239, 32218] @ ascii '' ===''"

definition important_events :: "WorldManager \<Rightarrow> TimelineEvent list" where
  "important_events wm =
     sort_key event_year (filter (\<lambda>e. event_importance e \<ge> 3) (dict_values (timeline wm)))"

definition active_plots :: "WorldManager \<Rightarrow> PlotThread list" where
  "active_plots wm = filter (\<lambda>p. plot_status p = ascii ''active'') (dict_values (plot_threads wm))"

definition world_context_parts ::
  "(json \<Rightarrow> pystr) \<Rightarrow> SettingType list option \<Rightarrow> WorldManager \<Rightarrow> pystr list" where
  "world_context_parts fmt relevant_types wm =
     [hdr_settings]
     @ settings_lines fmt relevant_types (dict_values (settings wm))
     @ [hdr_history]
     @ concat (map event_lines (important_events wm))
     @ [hdr_plots]
     @ concat (map plot_lines (active_plots wm))"

definition get_world_context ::
  "(json \<Rightarrow> pystr) \<Rightarrow> SettingType list option \<Rightarrow> WorldManager \<Rightarrow> pystr" where
  "get_world_context fmt relevant_types wm = join lit_nl (world_context_parts fmt relevant_types wm)"

text \<open>
  \<open>check_consistency\<close>. The first loop groups the events by year into a dictionary that
  is not used afterwards; the second loop collects the issues.
\<close>

fun group_by_year ::
  "(int \<times> TimelineEvent list) list \<Rightarrow> TimelineEvent list \<Rightarrow> (int \<times> TimelineEvent list) list" where
  "group_by_year events_by_year [] = events_by_year"
| "group_by_year events_by_year (e # es) =
     (let year = event_year e;
          d = (if map_of events_by_year year = None then dict_set events_by_year year []
               else events_by_year)
      in group_by_year (dict_set d year (the (map_of d year) @ [e])) es)"

definition issue_message :: "PlotThread \<Rightarrow> pystr" where
  "issue_message p =
     [20239, 32218, 12300] @ plot_name p @ [12301, 12364, 26410, 22238, 21454, 12391, 12377]"

fun unresolved_issues :: "pystr list \<Rightarrow> PlotThread list \<Rightarrow> pystr list" where
  "unresolved_issues issues [] = issues"
| "unresolved_issues issues (p # ps) =
     (if plot_status p = ascii ''active'' \<and> plot_payoff_events p = []
      then unresolved_issues (issues @ [issue_message p]) ps
      else unresolved_issues issues ps)"

definition check_consistency :: "WorldManager \<Rightarrow> pystr list" where
  "check_consistency wm =
     (let issues = [];
          events_by_year = group_by_year [] (dict_values (timeline wm))
      in unresolved_issues issues (dict_values (plot_threads wm)))"

section \<open>advanced\_main.py: the timeline endpoints\<close>

text \<open>
  \<open>POST /world/timeline\<close>: the request fields, the new event's id, and the response:
  the event id, or the error that the handler turns into a status 500.
\<close>

record TimelineEventRequest =
  req_name :: pystr
  req_description :: pystr
  req_year :: int
  req_month :: "int option"
  req_day :: "int option"
  req_importance :: int
  req_related_characters :: "pystr list"

definition post_timeline ::
  "TimelineEventRequest \<Rightarrow> WorldManager \<Rightarrow> (py_error + pystr) \<times> WorldManager" where
  "post_timeline request wm =
     (let eid = ascii ''event_'' @ str_int (int (length (timeline wm)) + 1);
          event = TimelineEvent_init eid (req_name request) (req_description request)
                    (req_year request) (req_month request) (req_day request)
                    (req_importance request) (Some (req_related_characters request)) None None
      in case add_timeline_event event wm of
           (Some e, wm') \<Rightarrow> (Inl e, wm')
         | (None, wm') \<Rightarrow> (Inr eid, wm'))"

text \<open>\<open>GET /world/timeline\<close>: the rows of the response and \<open>total_events\<close>.\<close>

definition JInt_opt :: "int option \<Rightarrow> json" where
  "JInt_opt x = (case x of None \<Rightarrow> JNull | Some i \<Rightarrow> JInt i)"




section \<open>memory\_manager.py\<close>

text \<open>
  \<open>self.characters\<close> is a dictionary from names to dictionaries that are stored and
  loaded as they are, so a character is a JSON value. The conversation memory is not part
  of the model.
\<close>

record CharacterMemoryManager =
  characters :: "(pystr \<times> json) list"
  memory_file :: data_file

definition save_memory :: "pystr \<Rightarrow> CharacterMemoryManager \<Rightarrow> CharacterMemoryManager" where
  "save_memory now cm =
     (case json_dump (PDict [(ascii ''characters'', pyval_of_json (JObj (characters cm))),
                             (ascii ''last_updated'', PStr now)]) of
        Inl e \<Rightarrow> cm\<lparr>memory_file := Invalid\<rparr>
      | Inr doc \<Rightarrow> cm\<lparr>memory_file := Document doc\<rparr>)"










text \<open>
  The shape of the dictionaries that \<open>add_character\<close> stores: the four keys that
  \<open>get_character_memory_string\<close> reads are present, the traits are a list of strings and
  the relationships a dictionary.
\<close>

definition is_JStr :: "json \<Rightarrow> bool" where
  "is_JStr v = (case v of JStr s \<Rightarrow> True | _ \<Rightarrow> False)"



section \<open>advanced\_main.py: the prompt of the advanced generation endpoint\<close>











section \<open>Loading the JSON files\<close>

text \<open>
  The loaders build the dataclasses with \<open>Cls(**data)\<close>, which checks the keys of
  \<open>data\<close> and nothing else: a missing required key or an unexpected key raises
  \<open>TypeError\<close>, a value of any type is stored as it is. The records of this theory are
  typed, so a loader is modelled on the documents whose fields have the declared types
  (\<open>*_typed\<close>, which also asks that the keys of a dictionary are distinct, as they are
  after \<open>json.load\<close>); on any other document the model says nothing (\<open>None\<close>). Every
  loader catches all exceptions and then returns the empty dictionary.
\<close>

definition has_only_keys :: "(pystr \<times> json) list \<Rightarrow> string list \<Rightarrow> bool" where
  "has_only_keys kv ks = list_all (\<lambda>k. k \<in> set (map ascii ks)) (map fst kv)"

definition has_keys :: "(pystr \<times> json) list \<Rightarrow> string list \<Rightarrow> bool" where
  "has_keys kv ks = list_all (\<lambda>k. map_of kv (ascii k) \<noteq> None) ks"

definition field :: "(pystr \<times> json) list \<Rightarrow> string \<Rightarrow> json \<Rightarrow> json" where
  "field kv k dflt = (case map_of kv (ascii k) of None \<Rightarrow> dflt | Some v \<Rightarrow> v)"

definition str_of :: "json \<Rightarrow> pystr" where
  "str_of v = (case v of JStr s \<Rightarrow> s | _ \<Rightarrow> [])"

definition int_of :: "json \<Rightarrow> int" where
  "int_of v = (case v of JInt i \<Rightarrow> i | _ \<Rightarrow> 0)"

definition list_of :: "json \<Rightarrow> json list" where
  "list_of v = (case v of JList xs \<Rightarrow> xs | _ \<Rightarrow> [])"

definition strs_of :: "json \<Rightarrow> pystr list" where
  "strs_of v = map str_of (list_of v)"

definition opt_str_of :: "json \<Rightarrow> pystr option" where
  "opt_str_of v = (case v of JStr s \<Rightarrow> Some s | _ \<Rightarrow> None)"

definition opt_int_of :: "json \<Rightarrow> int option" where
  "opt_int_of v = (case v of JInt i \<Rightarrow> Some i | _ \<Rightarrow> None)"

definition opt_strs_of :: "json \<Rightarrow> pystr list option" where
  "opt_strs_of v = (case v of JList xs \<Rightarrow> Some (map str_of xs) | _ \<Rightarrow> None)"

definition is_JInt :: "json \<Rightarrow> bool" where
  "is_JInt v = (case v of JInt i \<Rightarrow> True | _ \<Rightarrow> False)"

definition is_strs :: "json \<Rightarrow> bool" where
  "is_strs v = (case v of JList xs \<Rightarrow> list_all is_JStr xs | _ \<Rightarrow> False)"

definition is_opt :: "(json \<Rightarrow> bool) \<Rightarrow> json \<Rightarrow> bool" where
  "is_opt P v = (v = JNull \<or> P v)"

definition typed_field :: "(pystr \<times> json) list \<Rightarrow> string \<Rightarrow> (json \<Rightarrow> bool) \<Rightarrow> bool" where
  "typed_field kv k P = (case map_of kv (ascii k) of None \<Rightarrow> True | Some v \<Rightarrow> P v)"

text \<open>\<open>Scene(**scene_data)\<close>\<close>

definition scene_typed :: "json \<Rightarrow> bool" where
  "scene_typed scene_data =
     (case scene_data of
        JObj kv \<Rightarrow>
          distinct (map fst kv)
          \<and> typed_field kv ''id'' is_JStr \<and> typed_field kv ''name'' is_JStr
          \<and> typed_field kv ''description'' is_JStr \<and> typed_field kv ''location'' is_JStr
          \<and> typed_field kv ''characters'' is_strs \<and> typed_field kv ''purpose'' is_JStr
          \<and> typed_field kv ''content'' is_JStr \<and> typed_field kv ''word_count'' is_JInt
          \<and> typed_field kv ''notes'' is_JStr \<and> typed_field kv ''plot_threads'' (is_opt is_strs)
      | _ \<Rightarrow> True)"

definition scene_of_json :: "json \<Rightarrow> py_error + Scene" where
  "scene_of_json scene_data =
     (case scene_data of
        JObj kv \<Rightarrow>
          if has_only_keys kv [''id'', ''name'', ''description'', ''location'', ''characters'',
               ''purpose'', ''content'', ''word_count'', ''notes'', ''plot_threads'']
             \<and> has_keys kv [''id'', ''name'', ''description'', ''location'', ''characters'', ''purpose'']
          then Inr (Scene_init
                 (str_of (field kv ''id'' JNull)) (str_of (field kv ''name'' JNull))
                 (str_of (field kv ''description'' JNull)) (str_of (field kv ''location'' JNull))
                 (strs_of (field kv ''characters'' JNull)) (str_of (field kv ''purpose'' JNull))
                 (str_of (field kv ''content'' (JStr []))) (int_of (field kv ''word_count'' (JInt 0)))
                 (str_of (field kv ''notes'' (JStr []))) (opt_strs_of (field kv ''plot_threads'' JNull)))
          else Inl TypeError
      | _ \<Rightarrow> Inl TypeError)"

text \<open>
  One chapter of \<open>_load_stories\<close>: the scenes of \<open>chapter_data.get('scenes', [])\<close>, then
  \<open>ChapterStatus(chapter_data['status'])\<close>, then \<open>Chapter(**chapter_data)\<close>, where
  \<open>chapter_data\<close> now has both keys.
\<close>

definition ChapterStatus_of_json :: "json \<Rightarrow> py_error + ChapterStatus" where
  "ChapterStatus_of_json v = (case v of JStr s \<Rightarrow> ChapterStatus_of_value s | _ \<Rightarrow> Inl ValueError)"

definition chapter_typed :: "json \<Rightarrow> bool" where
  "chapter_typed chapter_data =
     (case chapter_data of
        JObj kv \<Rightarrow>
          distinct (map fst kv)
          \<and> typed_field kv ''id'' is_JStr \<and> typed_field kv ''number'' is_JInt
          \<and> typed_field kv ''title'' is_JStr \<and> typed_field kv ''summary'' is_JStr
          \<and> typed_field kv ''scenes'' (\<lambda>v. case v of JList xs \<Rightarrow> list_all scene_typed xs | _ \<Rightarrow> False)
          \<and> typed_field kv ''target_word_count'' is_JInt
          \<and> typed_field kv ''actual_word_count'' is_JInt
          \<and> typed_field kv ''notes'' is_JStr
          \<and> typed_field kv ''created_at'' (is_opt is_JStr)
          \<and> typed_field kv ''updated_at'' (is_opt is_JStr)
      | _ \<Rightarrow> True)"

definition chapter_of_json :: "pystr \<Rightarrow> json \<Rightarrow> py_error + Chapter" where
  "chapter_of_json now chapter_data =
     (case chapter_data of
        JObj kv \<Rightarrow>
          (case collect (map scene_of_json (list_of (field kv ''scenes'' (JList [])))) of
             Inl e \<Rightarrow> Inl e
           | Inr scenes \<Rightarrow>
               (case map_of kv (ascii ''status'') of
                  None \<Rightarrow> Inl KeyError
                | Some v \<Rightarrow>
                    (case ChapterStatus_of_json v of
                       Inl e \<Rightarrow> Inl e
                     | Inr status \<Rightarrow>
                         if has_only_keys kv [''id'', ''number'', ''title'', ''summary'', ''scenes'',
                              ''status'', ''target_word_count'', ''actual_word_count'', ''notes'',
                              ''created_at'', ''updated_at'']
                            \<and> has_keys kv [''id'', ''number'', ''title'', ''summary'']
                         then Inr (Chapter_init now
                                (str_of (field kv ''id'' JNull)) (int_of (field kv ''number'' JNull))
                                (str_of (field kv ''title'' JNull)) (str_of (field kv ''summary'' JNull))
                                scenes status
                                (int_of (field kv ''target_word_count'' (JInt 3000)))
                                (int_of (field kv ''actual_word_count'' (JInt 0)))
                                (str_of (field kv ''notes'' (JStr [])))
                                (opt_str_of (field kv ''created_at'' JNull))
                                (opt_str_of (field kv ''updated_at'' JNull)))
                         else Inl TypeError)))
      | _ \<Rightarrow> Inl AttributeError)"

text \<open>One story: its chapters, then \<open>Story(**story_data)\<close>.\<close>

definition story_typed :: "json \<Rightarrow> bool" where
  "story_typed story_data =
     (case story_data of
        JObj kv \<Rightarrow>
          distinct (map fst kv)
          \<and> typed_field kv ''id'' is_JStr \<and> typed_field kv ''title'' is_JStr
          \<and> typed_field kv ''genre'' is_JStr \<and> typed_field kv ''summary'' is_JStr
          \<and> typed_field kv ''chapters'' (\<lambda>v. case v of JList xs \<Rightarrow> list_all chapter_typed xs | _ \<Rightarrow> False)
          \<and> typed_field kv ''target_word_count'' is_JInt
          \<and> typed_field kv ''current_word_count'' is_JInt
          \<and> typed_field kv ''status'' is_JStr
          \<and> typed_field kv ''created_at'' (is_opt is_JStr)
          \<and> typed_field kv ''updated_at'' (is_opt is_JStr)
      | _ \<Rightarrow> True)"

definition story_of_json :: "pystr \<Rightarrow> json \<Rightarrow> py_error + Story" where
  "story_of_json now story_data =
     (case story_data of
        JObj kv \<Rightarrow>
          (case collect (map (chapter_of_json now) (list_of (field kv ''chapters'' (JList [])))) of
             Inl e \<Rightarrow> Inl e
           | Inr chapters \<Rightarrow>
               if has_only_keys kv [''id'', ''title'', ''genre'', ''summary'', ''chapters'',
                    ''target_word_count'', ''current_word_count'', ''status'', ''created_at'',
                    ''updated_at'']
                  \<and> has_keys kv [''id'', ''title'', ''genre'', ''summary'']
               then Inr (Story_init now
                      (str_of (field kv ''id'' JNull)) (str_of (field kv ''title'' JNull))
                      (str_of (field kv ''genre'' JNull)) (str_of (field kv ''summary'' JNull))
                      chapters
                      (int_of (field kv ''target_word_count'' (JInt 50000)))
                      (int_of (field kv ''current_word_count'' (JInt 0)))
                      (str_of (field kv ''status'' (JStr (ascii ''planning''))))
                      (opt_str_of (field kv ''created_at'' JNull))
                      (opt_str_of (field kv ''updated_at'' JNull)))
               else Inl TypeError)
      | _ \<Rightarrow> Inl AttributeError)"

text \<open>A dictionary of entities, built entry by entry; the first exception ends the load.\<close>

definition entries_of_json ::
  "(json \<Rightarrow> py_error + 'a) \<Rightarrow> json \<Rightarrow> py_error + (pystr \<times> 'a) list" where
  "entries_of_json f data =
     (case data of
        JObj d \<Rightarrow> collect (map (\<lambda>kv. case f (snd kv) of Inl e \<Rightarrow> Inl e | Inr x \<Rightarrow> Inr (fst kv, x)) d)
      | _ \<Rightarrow> Inl AttributeError)"

definition entries_typed :: "(json \<Rightarrow> bool) \<Rightarrow> json \<Rightarrow> bool" where
  "entries_typed P data =
     (case data of JObj d \<Rightarrow> distinct (map fst d) \<and> list_all P (map snd d) | _ \<Rightarrow> True)"

definition load_entries ::
  "(json \<Rightarrow> bool) \<Rightarrow> (json \<Rightarrow> py_error + 'a) \<Rightarrow> data_file \<Rightarrow> (pystr \<times> 'a) list option" where
  "load_entries P f file =
     (case file of
        Absent \<Rightarrow> Some []
      | Invalid \<Rightarrow> Some []
      | Document data \<Rightarrow>
          if entries_typed P data
          then Some (case entries_of_json f data of Inl e \<Rightarrow> [] | Inr d \<Rightarrow> d)
          else None)"

definition load_stories :: "pystr \<Rightarrow> data_file \<Rightarrow> (pystr \<times> Story) list option" where
  "load_stories now file = load_entries story_typed (story_of_json now) file"

text \<open>
  \<open>StoryManager.__init__\<close> on a data directory that holds the given stories file (the
  result is \<open>None\<close> where the model says nothing).
\<close>

definition StoryManager_init :: "pystr \<Rightarrow> data_file \<Rightarrow> StoryManager option" where
  "StoryManager_init now file =
     (case load_stories now file of
        None \<Rightarrow> None
      | Some d \<Rightarrow> Some \<lparr> stories = d, current_story_id = None, stories_file = file \<rparr>)"








text \<open>
  The word counts that the constructors establish: a scene with content counts its
  characters, a chapter sums its scenes, a story sums its chapters.
\<close>

definition scene_counted :: "Scene \<Rightarrow> bool" where
  "scene_counted s = (scene_content s \<noteq> [] \<longrightarrow> scene_word_count s = int (length (scene_content s)))"

definition chapter_counted :: "Chapter \<Rightarrow> bool" where
  "chapter_counted c =
     (chapter_actual_word_count c = sum_list (map scene_word_count (chapter_scenes c))
      \<and> list_all scene_counted (chapter_scenes c))"

definition story_counted :: "Story \<Rightarrow> bool" where
  "story_counted s =
     (story_current_word_count s = sum_list (map chapter_actual_word_count (story_chapters s))
      \<and> list_all chapter_counted (story_chapters s))"

section \<open>The documents that the saves write\<close>

text \<open>
  Names for the JSON documents of the entities; that \<open>json.dump\<close> writes exactly these
  for the dictionaries of \<open>asdict\<close> is proved below, not assumed.
\<close>

definition scene_json :: "Scene \<Rightarrow> json" where
  "scene_json s = JObj
     [(ascii ''id'', JStr (scene_id s)),
      (ascii ''name'', JStr (scene_name s)),
      (ascii ''description'', JStr (scene_description s)),
      (ascii ''location'', JStr (scene_location s)),
      (ascii ''characters'', JStrs (scene_characters s)),
      (ascii ''purpose'', JStr (scene_purpose s)),
      (ascii ''content'', JStr (scene_content s)),
      (ascii ''word_count'', JInt (scene_word_count s)),
      (ascii ''notes'', JStr (scene_notes s)),
      (ascii ''plot_threads'', JStrs (scene_plot_threads s))]"

definition chapter_json :: "Chapter \<Rightarrow> json" where
  "chapter_json c = JObj
     [(ascii ''id'', JStr (chapter_id c)),
      (ascii ''number'', JInt (chapter_number c)),
      (ascii ''title'', JStr (chapter_title c)),
      (ascii ''summary'', JStr (chapter_summary c)),
      (ascii ''scenes'', JList (map scene_json (chapter_scenes c))),
      (ascii ''status'', JStr (ChapterStatus_value (chapter_status c))),
      (ascii ''target_word_count'', JInt (chapter_target_word_count c)),
      (ascii ''actual_word_count'', JInt (chapter_actual_word_count c)),
      (ascii ''notes'', JStr (chapter_notes c)),
      (ascii ''created_at'', JStr (chapter_created_at c)),
      (ascii ''updated_at'', JStr (chapter_updated_at c))]"

definition story_json :: "Story \<Rightarrow> json" where
  "story_json s = JObj
     [(ascii ''id'', JStr (story_id s)),
      (ascii ''title'', JStr (story_title s)),
      (ascii ''genre'', JStr (story_genre s)),
      (ascii ''summary'', JStr (story_summary s)),
      (ascii ''chapters'', JList (map chapter_json (story_chapters s))),
      (ascii ''target_word_count'', JInt (story_target_word_count s)),
      (ascii ''current_word_count'', JInt (story_current_word_count s)),
      (ascii ''status'', JStr (story_status s)),
      (ascii ''created_at'', JStr (story_created_at s)),
      (ascii ''updated_at'', JStr (story_updated_at s))]"

definition event_json :: "TimelineEvent \<Rightarrow> json" where
  "event_json e = JObj
     [(ascii ''id'', JStr (event_id e)),
      (ascii ''name'', JStr (event_name e)),
      (ascii ''description'', JStr (event_description e)),
      (ascii ''year'', JInt (event_year e)),
      (ascii ''month'', JInt_opt (event_month e)),
      (ascii ''day'', JInt_opt (event_day e)),
      (ascii ''importance'', JInt (event_importance e)),
      (ascii ''related_characters'', JStrs (event_related_characters e)),
      (ascii ''related_settings'', JStrs (event_related_settings e)),
      (ascii ''consequences'', JStrs (event_consequences e))]"

definition plot_json :: "PlotThread \<Rightarrow> json" where
  "plot_json p = JObj
     [(ascii ''id'', JStr (plot_id p)),
      (ascii ''name'', JStr (plot_name p)),
      (ascii ''description'', JStr (plot_description p)),
      (ascii ''setup_events'', JStrs (plot_setup_events p)),
      (ascii ''payoff_events'', JStrs (plot_payoff_events p)),
      (ascii ''status'', JStr (plot_status p)),
      (ascii ''importance'', JInt (plot_importance p)),
      (ascii ''related_characters'', JStrs (plot_related_characters p))]"

definition entries_json :: "('a \<Rightarrow> json) \<Rightarrow> (pystr \<times> 'a) list \<Rightarrow> json" where
  "entries_json f d = JObj (map (\<lambda>kv. (fst kv, f (snd kv))) d)"

section \<open>Example values\<close>

definition example_scene :: Scene where
  "example_scene =
     Scene_init (ascii ''s1_chapter_2_scene_1'') (ascii ''Arrival'') (ascii ''The ship lands'')
       (ascii ''Harbour'') [ascii ''Aya'', ascii ''Ken''] (ascii ''Introduce Aya'')
       (ascii ''Rain fell.'') 0 [] None"

definition example_chapter :: "int \<Rightarrow> ChapterStatus \<Rightarrow> Scene list \<Rightarrow> Chapter" where
  "example_chapter n status scenes =
     Chapter_init (ascii ''2024-01-01T00:00:00'') (ascii ''s1_chapter_'' @ str_int n) n
       (ascii ''Title'') (ascii ''Summary'') scenes status 3000 0 [] None None"

definition example_story :: "Chapter list \<Rightarrow> Story" where
  "example_story chapters =
     Story_init (ascii ''2024-01-01T00:00:00'') (ascii ''s1'') (ascii ''Voyage'') (ascii ''fantasy'')
       (ascii ''A sea voyage'') chapters 50000 0 (ascii ''planning'') None None"

definition example_manager :: "Chapter list \<Rightarrow> StoryManager" where
  "example_manager chapters =
     \<lparr> stories = [(ascii ''s1'', example_story chapters)], current_story_id = None,
       stories_file = Absent \<rparr>"

definition example_world :: WorldManager where
  "example_world =
     \<lparr> settings = [], timeline = [], plot_threads = [], settings_file = Absent,
       timeline_file = Absent, plots_file = Absent \<rparr>"

definition example_request :: "pystr \<Rightarrow> int \<Rightarrow> int \<Rightarrow> TimelineEventRequest" where
  "example_request name year importance =
     \<lparr> req_name = name, req_description = ascii ''something happened'', req_year = year,
       req_month = None, req_day = None, req_importance = importance,
       req_related_characters = [] \<rparr>"

definition example_timeline :: WorldManager where
  "example_timeline =
     snd (post_timeline (example_request (ascii ''C'') 300 5)
       (snd (post_timeline (example_request (ascii ''B'') 100 4)
         (snd (post_timeline (example_request (ascii ''A'') 500 2) example_world)))))"

definition example_plot :: "pystr \<Rightarrow> pystr \<Rightarrow> pystr list \<Rightarrow> PlotThread" where
  "example_plot name status payoff_events =
     PlotThread_init (ascii ''plot_'' @ name) name (ascii ''a thread'') [ascii ''setup''] payoff_events
       status 1 None"

definition example_setting :: WorldSetting where
  "example_setting =
     WorldSetting_init (ascii ''2024-01-01T00:00:00'') (ascii ''setting_1'') (ascii ''Capital'')
       GEOGRAPHY (ascii ''A walled city'') [(ascii ''population'', JInt 9000)] None None None"

definition example_full_world :: WorldManager where
  "example_full_world =
     example_timeline
       \<lparr> settings := [(ascii ''setting_1'', example_setting)],
         plot_threads :=
           [(ascii ''plot_1'', example_plot (ascii ''heir'') (ascii ''active'') []),
            (ascii ''plot_2'', example_plot (ascii ''sword'') (ascii ''resolved'') [])] \<rparr>"







definition example_calls :: "pystr \<Rightarrow> int \<Rightarrow> story_call list" where
  "example_calls sid number =
     [AddChapter (ascii ''2024-03-01T00:00:00'') (ascii ''2024-03-01T00:00:01'') sid (ascii ''Storm'')
        (ascii ''A storm''),
      AddScene (ascii ''2024-03-01T00:00:02'') sid number (ascii ''Rain'') (ascii ''It rains'')
        (ascii ''Deck'') [ascii ''Aya''] (ascii ''Mood''),
      UpdateSceneContent (ascii ''2024-03-01T00:00:03'') sid number 0 (ascii ''Sun.'')]"

definition example_word_counts :: "StoryManager \<Rightarrow> (int \<times> (int \<times> (int \<times> pystr) list) list) list" where
  "example_word_counts m =
     map (\<lambda>s. (story_current_word_count s,
               map (\<lambda>c. (chapter_actual_word_count c,
                         map (\<lambda>sc. (scene_word_count sc, scene_content sc)) (chapter_scenes c)))
                 (story_chapters s)))
       (dict_values (stories m))"

section \<open>Helper lemmas\<close>


lemma sublist_join: "x \<in> set xs \<Longrightarrow> sublist x (join sep xs)"
proof (induction sep xs rule: join.induct)
  case (3 sep a b ys)
  show ?case
  proof (cases "x = a")
    case True
    then show ?thesis by simp
  next
    case False
    with 3 have "sublist x (join sep (b # ys))" by simp
    then obtain ps ss where "join sep (b # ys) = ps @ x @ ss" by (auto simp: sublist_def)
    then have "join sep (a # b # ys) = (a @ sep @ ps) @ x @ ss" by simp
    then show ?thesis unfolding sublist_def by blast
  qed
qed simp_all

lemma find_current_chapter_none:
  "(\<forall>x\<in>set cs. chapter_status x \<notin> {DRAFTING, OUTLINE}) \<Longrightarrow> find_current_chapter cs = None"
  by (induction cs) auto

lemma find_current_chapter_first:
  "(\<forall>x\<in>set pre. chapter_status x \<notin> {DRAFTING, OUTLINE}) \<Longrightarrow> chapter_status c \<in> {DRAFTING, OUTLINE}
     \<Longrightarrow> find_current_chapter (pre @ c # post) = Some c"
  by (induction pre) auto

lemma content_in_chapter_scene_lines:
  "s \<in> set ss \<Longrightarrow> scene_content s \<noteq> [] \<Longrightarrow> scene_content s \<in> set (chapter_scene_lines i ss)"
  by (induction ss arbitrary: i) auto

text \<open>
  Claim C10. For a story id that is not in the store, \<open>get_story_context\<close> returns the
  empty string and raises nothing, while \<open>get_current_chapter_context\<close> and
  \<open>get_writing_suggestions\<close> raise \<open>KeyError\<close> (the lookup \<open>self.stories[story_id]\<close>
  is not guarded).
\<close>

theorem absent_story_lookups:
  "map_of (stories m) sid = None \<Longrightarrow>
     get_story_context m sid = [] \<and>
     get_current_chapter_context m sid = Inl KeyError \<and>
     get_writing_suggestions m sid = Inl KeyError"
  by (simp add: get_story_context_def get_current_chapter_context_def get_writing_suggestions_def)

text \<open>
  Claim C6. For a story in the store, \<open>get_current_chapter_context\<close> returns the empty
  string when the story has no chapters; otherwise it renders the first chapter, in list
  order, whose status is \<open>DRAFTING\<close> or \<open>OUTLINE\<close>, and the last chapter when no chapter
  has such a status. The rendering of a chapter holds the content of each of its scenes: a
  non-empty content is one of the joined lines, so it is a substring of the result.
\<close>

theorem current_chapter_context_choice:
  assumes "map_of (stories m) sid = Some story"
  shows "(story_chapters story = [] \<longrightarrow> get_current_chapter_context m sid = Inr [])
    \<and> (\<forall>pre c post.
          story_chapters story = pre @ c # post
          \<and> (\<forall>x\<in>set pre. chapter_status x \<notin> {DRAFTING, OUTLINE})
          \<and> chapter_status c \<in> {DRAFTING, OUTLINE}
          \<longrightarrow> get_current_chapter_context m sid = Inr (join lit_nl (current_chapter_lines c)))
    \<and> (story_chapters story \<noteq> []
          \<and> (\<forall>x\<in>set (story_chapters story). chapter_status x \<notin> {DRAFTING, OUTLINE})
          \<longrightarrow> get_current_chapter_context m sid
                = Inr (join lit_nl (current_chapter_lines (last (story_chapters story)))))
    \<and> (\<forall>c s. s \<in> set (chapter_scenes c) \<longrightarrow>
          (scene_content s \<noteq> [] \<longrightarrow> scene_content s \<in> set (current_chapter_lines c))
          \<and> sublist (scene_content s) (join lit_nl (current_chapter_lines c)))"
proof (intro conjI allI impI)
  assume "story_chapters story = []"
  with assms show "get_current_chapter_context m sid = Inr []"
    by (simp add: get_current_chapter_context_def)
next
  fix pre :: "Chapter list" and c :: Chapter and post :: "Chapter list"
  assume h: "story_chapters story = pre @ c # post
          \<and> (\<forall>x\<in>set pre. chapter_status x \<notin> {DRAFTING, OUTLINE})
          \<and> chapter_status c \<in> {DRAFTING, OUTLINE}"
  then have "find_current_chapter (story_chapters story) = Some c"
    using find_current_chapter_first by simp
  with assms show "get_current_chapter_context m sid = Inr (join lit_nl (current_chapter_lines c))"
    by (simp add: get_current_chapter_context_def)
next
  assume h: "story_chapters story \<noteq> []
          \<and> (\<forall>x\<in>set (story_chapters story). chapter_status x \<notin> {DRAFTING, OUTLINE})"
  then have "find_current_chapter (story_chapters story) = None"
    using find_current_chapter_none by blast
  with assms h show "get_current_chapter_context m sid
                = Inr (join lit_nl (current_chapter_lines (last (story_chapters story))))"
    by (simp add: get_current_chapter_context_def)
next
  fix c :: Chapter and s :: Scene
  assume "s \<in> set (chapter_scenes c)" "scene_content s \<noteq> []"
  then show "scene_content s \<in> set (current_chapter_lines c)"
    by (simp add: current_chapter_lines_def content_in_chapter_scene_lines)
next
  fix c :: Chapter and s :: Scene
  assume s: "s \<in> set (chapter_scenes c)"
  show "sublist (scene_content s) (join lit_nl (current_chapter_lines c))"
  proof (cases "scene_content s = []")
    case True
    then show ?thesis by simp
  next
    case False
    with s have "scene_content s \<in> set (current_chapter_lines c)"
      by (simp add: current_chapter_lines_def content_in_chapter_scene_lines)
    then show ?thesis by (rule sublist_join)
  qed
qed


theorem absent_story_lookups_witness:
  "map_of (stories (example_manager [])) (ascii ''s2'') = None \<and>
   get_story_context (example_manager []) (ascii ''s2'') = [] \<and>
   get_current_chapter_context (example_manager []) (ascii ''s2'') = Inl KeyError \<and>
   get_writing_suggestions (example_manager []) (ascii ''s2'') = Inl KeyError"
proof -
  have h: "map_of (stories (example_manager [])) (ascii ''s2'') = None"
    by (simp add: example_manager_def ascii_def)
  from h absent_story_lookups [OF h] show ?thesis by simp
qed

lemma example_lookup:
  "map_of (stories (example_manager cs)) (ascii ''s1'') = Some (example_story cs)"
  by (simp add: example_manager_def)

lemma example_story_chapters [simp]: "story_chapters (example_story cs) = cs"
  by (simp add: example_story_def Story_init_def Story_update_word_count_def Let_def)

lemma example_chapter_status [simp]: "chapter_status (example_chapter n st ss) = st"
  by (simp add: example_chapter_def Chapter_init_def Chapter_update_word_count_def Let_def)

lemma example_chapter_scenes [simp]: "chapter_scenes (example_chapter n st ss) = ss"
  by (simp add: example_chapter_def Chapter_init_def Chapter_update_word_count_def Let_def)

theorem current_chapter_context_choice_witness:
  "get_current_chapter_context (example_manager []) (ascii ''s1'') = Inr []
   \<and> get_current_chapter_context
        (example_manager [example_chapter 1 PLANNED [], example_chapter 2 OUTLINE [example_scene],
                          example_chapter 3 DRAFTING []]) (ascii ''s1'')
      = Inr (join lit_nl (current_chapter_lines (example_chapter 2 OUTLINE [example_scene])))
   \<and> get_current_chapter_context
        (example_manager [example_chapter 1 PLANNED [], example_chapter 2 COMPLETED []]) (ascii ''s1'')
      = Inr (join lit_nl (current_chapter_lines (example_chapter 2 COMPLETED [])))
   \<and> sublist (ascii ''Rain fell.'')
        (join lit_nl (current_chapter_lines (example_chapter 2 OUTLINE [example_scene])))"
proof (intro conjI)
  show "get_current_chapter_context (example_manager []) (ascii ''s1'') = Inr []"
    using current_chapter_context_choice [OF example_lookup [of "[]"]] by simp
next
  let ?cs = "[example_chapter 1 PLANNED [], example_chapter 2 OUTLINE [example_scene],
              example_chapter 3 DRAFTING []]"
  from current_chapter_context_choice [OF example_lookup [of ?cs]]
  have "\<forall>pre c post.
          story_chapters (example_story ?cs) = pre @ c # post
          \<and> (\<forall>x\<in>set pre. chapter_status x \<notin> {DRAFTING, OUTLINE})
          \<and> chapter_status c \<in> {DRAFTING, OUTLINE}
          \<longrightarrow> get_current_chapter_context (example_manager ?cs) (ascii ''s1'')
                = Inr (join lit_nl (current_chapter_lines c))"
    by blast
  from this [rule_format, of "[example_chapter 1 PLANNED []]" "example_chapter 2 OUTLINE [example_scene]"
      "[example_chapter 3 DRAFTING []]"]
  show "get_current_chapter_context (example_manager ?cs) (ascii ''s1'')
      = Inr (join lit_nl (current_chapter_lines (example_chapter 2 OUTLINE [example_scene])))"
    by simp
next
  let ?cs = "[example_chapter 1 PLANNED [], example_chapter 2 COMPLETED []]"
  from current_chapter_context_choice [OF example_lookup [of ?cs]]
  show "get_current_chapter_context (example_manager ?cs) (ascii ''s1'')
      = Inr (join lit_nl (current_chapter_lines (example_chapter 2 COMPLETED [])))"
    by simp
next
  from current_chapter_context_choice [OF example_lookup [of "[]"]]
  have "\<forall>c s. s \<in> set (chapter_scenes c) \<longrightarrow>
          (scene_content s \<noteq> [] \<longrightarrow> scene_content s \<in> set (current_chapter_lines c))
          \<and> sublist (scene_content s) (join lit_nl (current_chapter_lines c))"
    by blast
  from this [rule_format, of example_scene "example_chapter 2 OUTLINE [example_scene]"]
  show "sublist (ascii ''Rain fell.'')
        (join lit_nl (current_chapter_lines (example_chapter 2 OUTLINE [example_scene])))"
    by (simp add: example_scene_def Scene_init_def)
qed


lemma unresolved_issues_eq:
  "unresolved_issues issues ps =
     issues @ map issue_message
       (filter (\<lambda>p. plot_status p = ascii ''active'' \<and> plot_payoff_events p = []) ps)"
  by (induction ps arbitrary: issues) auto

text \<open>
  Claim C4. \<open>check_consistency\<close> returns one message for each plot thread whose status
  is \<open>"active"\<close> and whose \<open>payoff_events\<close> is empty, in dictionary order, and nothing
  else: threads with another status or with a payoff event produce no message, and the
  result is empty when every active thread has a payoff event.
\<close>

theorem check_consistency_messages:
  "check_consistency wm =
     map issue_message
       (filter (\<lambda>p. plot_status p = ascii ''active'' \<and> plot_payoff_events p = [])
          (dict_values (plot_threads wm)))
   \<and> length (check_consistency wm) =
       length (filter (\<lambda>p. plot_status p = ascii ''active'' \<and> plot_payoff_events p = [])
          (dict_values (plot_threads wm)))
   \<and> ((\<forall>p \<in> set (dict_values (plot_threads wm)).
          plot_status p = ascii ''active'' \<longrightarrow> plot_payoff_events p \<noteq> [])
        \<longrightarrow> check_consistency wm = [])"
proof -
  have eq: "check_consistency wm =
     map issue_message
       (filter (\<lambda>p. plot_status p = ascii ''active'' \<and> plot_payoff_events p = [])
          (dict_values (plot_threads wm)))"
    by (simp add: check_consistency_def unresolved_issues_eq)
  have "(\<forall>p \<in> set (dict_values (plot_threads wm)).
          plot_status p = ascii ''active'' \<longrightarrow> plot_payoff_events p \<noteq> [])
        \<longrightarrow> filter (\<lambda>p. plot_status p = ascii ''active'' \<and> plot_payoff_events p = [])
          (dict_values (plot_threads wm)) = []"
    by (auto simp: filter_empty_conv)
  with eq show ?thesis by simp
qed

lemma example_plot_fields [simp]:
  "plot_status (example_plot n st pay) = st"
  "plot_payoff_events (example_plot n st pay) = pay"
  "plot_name (example_plot n st pay) = n"
  by (simp_all add: example_plot_def PlotThread_init_def)

lemma ascii_eq_iff [simp]: "ascii s = ascii t \<longleftrightarrow> s = t"
proof -
  have "inj (of_char :: char \<Rightarrow> nat)" by (rule inj_of_char)
  then show ?thesis by (simp add: ascii_def inj_map_eq_map)
qed

theorem check_consistency_messages_witness:
  "check_consistency
     (example_world\<lparr>plot_threads :=
        [(ascii ''plot_1'', example_plot (ascii ''heir'') (ascii ''active'') []),
         (ascii ''plot_2'', example_plot (ascii ''sword'') (ascii ''resolved'') []),
         (ascii ''plot_3'', example_plot (ascii ''map'') (ascii ''active'') [ascii ''found''])]\<rparr>)
   = [issue_message (example_plot (ascii ''heir'') (ascii ''active'') [])]
   \<and> check_consistency
     (example_world\<lparr>plot_threads :=
        [(ascii ''plot_2'', example_plot (ascii ''sword'') (ascii ''resolved'') []),
         (ascii ''plot_3'', example_plot (ascii ''map'') (ascii ''active'') [ascii ''found''])]\<rparr>)
   = []"
proof (intro conjI)
  let ?wm = "example_world\<lparr>plot_threads :=
        [(ascii ''plot_1'', example_plot (ascii ''heir'') (ascii ''active'') []),
         (ascii ''plot_2'', example_plot (ascii ''sword'') (ascii ''resolved'') []),
         (ascii ''plot_3'', example_plot (ascii ''map'') (ascii ''active'') [ascii ''found''])]\<rparr>"
  from check_consistency_messages [of ?wm]
  show "check_consistency ?wm = [issue_message (example_plot (ascii ''heir'') (ascii ''active'') [])]"
    by (simp add: dict_values_def)
next
  let ?wm = "example_world\<lparr>plot_threads :=
        [(ascii ''plot_2'', example_plot (ascii ''sword'') (ascii ''resolved'') []),
         (ascii ''plot_3'', example_plot (ascii ''map'') (ascii ''active'') [ascii ''found''])]\<rparr>"
  have h: "\<forall>p \<in> set (dict_values (plot_threads ?wm)).
          plot_status p = ascii ''active'' \<longrightarrow> plot_payoff_events p \<noteq> []"
    by (simp add: dict_values_def)
  from check_consistency_messages [of ?wm] h
  show "check_consistency ?wm = []" by blast
qed

lemma save_all_collections [simp]:
  "settings (snd (save_all wm)) = settings wm"
  "timeline (snd (save_all wm)) = timeline wm"
  "plot_threads (snd (save_all wm)) = plot_threads wm"
  by (simp_all add: save_all_def split: sum.splits)

lemma post_timeline_snd:
  "snd (post_timeline r wm) =
     snd (add_timeline_event
       (TimelineEvent_init (ascii ''event_'' @ str_int (int (length (timeline wm)) + 1))
          (req_name r) (req_description r) (req_year r) (req_month r) (req_day r)
          (req_importance r) (Some (req_related_characters r)) None None) wm)"
  by (simp add: post_timeline_def Let_def split: prod.splits option.splits)

lemma post_timeline_timeline:
  "timeline (snd (post_timeline r wm)) =
     dict_set (timeline wm) (ascii ''event_'' @ str_int (int (length (timeline wm)) + 1))
       (TimelineEvent_init (ascii ''event_'' @ str_int (int (length (timeline wm)) + 1))
          (req_name r) (req_description r) (req_year r) (req_month r) (req_day r)
          (req_importance r) (Some (req_related_characters r)) None None)"
  by (simp add: post_timeline_snd add_timeline_event_def TimelineEvent_init_def)

lemma str_int_digit: "0 \<le> i \<Longrightarrow> i < 10 \<Longrightarrow> str_int i = [48 + nat i]"
  by (simp add: str_int_def str_nat.simps)

lemma example_timeline_events:
  "timeline example_timeline =
     [(ascii ''event_1'', TimelineEvent_init (ascii ''event_1'') (ascii ''A'') (ascii ''something happened'') 500
              None None 2 (Some []) None None),
      (ascii ''event_2'', TimelineEvent_init (ascii ''event_2'') (ascii ''B'') (ascii ''something happened'') 100
              None None 4 (Some []) None None),
      (ascii ''event_3'', TimelineEvent_init (ascii ''event_3'') (ascii ''C'') (ascii ''something happened'') 300
              None None 5 (Some []) None None)]"
  by (simp add: example_timeline_def post_timeline_timeline example_world_def example_request_def
        str_int_digit ascii_def)




lemma sublist_trans: "sublist xs ys \<Longrightarrow> sublist ys zs \<Longrightarrow> sublist xs zs"
  using sublist_order.order_trans by blast

lemma sublist_of_line: "l \<in> set ls \<Longrightarrow> sublist x l \<Longrightarrow> sublist x (join sep ls)"
  using sublist_join sublist_trans by blast

lemma setting_header_in_lines:
  "s \<in> set ss \<Longrightarrow>
     lit_lb @ setting_name s @ lit_rb @ ascii ''('' @ SettingType_value (setting_type s) @ ascii '')''
       \<in> set (settings_lines fmt None ss)"
  by (induction ss) (auto simp: setting_lines_def)

lemma event_header_in_lines:
  "e \<in> set es \<Longrightarrow> lit_lb @ str_int (event_year e) @ [24180, 12305] @ event_name e
     \<in> set (concat (map event_lines es))"
  by (induction es) (auto simp: event_lines_def)

lemma plot_header_in_lines:
  "p \<in> set ps \<Longrightarrow> lit_lb @ plot_name p @ lit_rb \<in> set (concat (map plot_lines ps))"
  by (induction ps) (auto simp: plot_lines_def)

lemma world_context_blocks:
  "(\<forall>s \<in> set (dict_values (settings wm)).
       lit_lb @ setting_name s @ lit_rb @ ascii ''('' @ SettingType_value (setting_type s) @ ascii '')''
         \<in> set (world_context_parts fmt None wm)
       \<and> sublist (setting_name s) (get_world_context fmt None wm))
   \<and> (\<exists>evs.
         world_context_parts fmt None wm =
           [hdr_settings] @ settings_lines fmt None (dict_values (settings wm))
           @ [hdr_history] @ concat (map event_lines evs)
           @ [hdr_plots]
           @ concat (map plot_lines
               (filter (\<lambda>p. plot_status p = ascii ''active'') (dict_values (plot_threads wm))))
         \<and> sorted (map event_year evs)
         \<and> mset evs = mset (filter (\<lambda>e. 3 \<le> event_importance e) (dict_values (timeline wm)))
         \<and> (\<forall>e \<in> set evs. 3 \<le> event_importance e)
         \<and> (\<forall>y. filter (\<lambda>e. event_year e = y) evs
                  = filter (\<lambda>e. event_year e = y \<and> 3 \<le> event_importance e)
                      (dict_values (timeline wm))))
   \<and> (\<forall>e \<in> set (dict_values (timeline wm)). 3 \<le> event_importance e \<longrightarrow>
         lit_lb @ str_int (event_year e) @ [24180, 12305] @ event_name e
           \<in> set (world_context_parts fmt None wm)
         \<and> sublist (event_name e) (get_world_context fmt None wm))
   \<and> (\<forall>p \<in> set (dict_values (plot_threads wm)). plot_status p = ascii ''active'' \<longrightarrow>
         lit_lb @ plot_name p @ lit_rb \<in> set (world_context_parts fmt None wm)
         \<and> sublist (plot_name p) (get_world_context fmt None wm))"
proof (intro conjI ballI impI)
  fix s assume "s \<in> set (dict_values (settings wm))"
  then show h: "lit_lb @ setting_name s @ lit_rb @ ascii ''('' @ SettingType_value (setting_type s) @ ascii '')''
         \<in> set (world_context_parts fmt None wm)"
    by (simp add: world_context_parts_def setting_header_in_lines)
  have "sublist (setting_name s)
     (lit_lb @ setting_name s @ lit_rb @ ascii ''('' @ SettingType_value (setting_type s) @ ascii '')'')"
    by (rule sublist_appendI)
  with h show "sublist (setting_name s) (get_world_context fmt None wm)"
    unfolding get_world_context_def by (rule sublist_of_line)
next
  let ?evs = "important_events wm"
  have "world_context_parts fmt None wm =
           [hdr_settings] @ settings_lines fmt None (dict_values (settings wm))
           @ [hdr_history] @ concat (map event_lines ?evs)
           @ [hdr_plots]
           @ concat (map plot_lines
               (filter (\<lambda>p. plot_status p = ascii ''active'') (dict_values (plot_threads wm))))"
    by (simp add: world_context_parts_def active_plots_def)
  moreover have "sorted (map event_year ?evs)" by (simp add: important_events_def)
  moreover have "mset ?evs = mset (filter (\<lambda>e. 3 \<le> event_importance e) (dict_values (timeline wm)))"
    by (simp add: important_events_def)
  moreover have "\<forall>e \<in> set ?evs. 3 \<le> event_importance e"
    by (simp add: important_events_def)
  moreover have "\<forall>y. filter (\<lambda>e. event_year e = y) ?evs
                  = filter (\<lambda>e. event_year e = y \<and> 3 \<le> event_importance e)
                      (dict_values (timeline wm))"
    by (simp add: important_events_def sort_key_stable conj_commute)
  ultimately show "\<exists>evs.
         world_context_parts fmt None wm =
           [hdr_settings] @ settings_lines fmt None (dict_values (settings wm))
           @ [hdr_history] @ concat (map event_lines evs)
           @ [hdr_plots]
           @ concat (map plot_lines
               (filter (\<lambda>p. plot_status p = ascii ''active'') (dict_values (plot_threads wm))))
         \<and> sorted (map event_year evs)
         \<and> mset evs = mset (filter (\<lambda>e. 3 \<le> event_importance e) (dict_values (timeline wm)))
         \<and> (\<forall>e \<in> set evs. 3 \<le> event_importance e)
         \<and> (\<forall>y. filter (\<lambda>e. event_year e = y) evs
                  = filter (\<lambda>e. event_year e = y \<and> 3 \<le> event_importance e)
                      (dict_values (timeline wm)))"
    by blast
next
  fix e assume "e \<in> set (dict_values (timeline wm))" "3 \<le> event_importance e"
  then have "e \<in> set (important_events wm)" by (simp add: important_events_def)
  then have "lit_lb @ str_int (event_year e) @ [24180, 12305] @ event_name e
           \<in> set (concat (map event_lines (important_events wm)))"
    by (rule event_header_in_lines)
  then show h: "lit_lb @ str_int (event_year e) @ [24180, 12305] @ event_name e
           \<in> set (world_context_parts fmt None wm)"
    by (simp add: world_context_parts_def)
  have "sublist (event_name e) ((lit_lb @ str_int (event_year e) @ [24180, 12305]) @ event_name e)"
    by (rule sublist_append_leftI)
  with h show "sublist (event_name e) (get_world_context fmt None wm)"
    unfolding get_world_context_def by (simp add: sublist_of_line)
next
  fix p assume "p \<in> set (dict_values (plot_threads wm))" "plot_status p = ascii ''active''"
  then have "p \<in> set (active_plots wm)" by (simp add: active_plots_def)
  then have "lit_lb @ plot_name p @ lit_rb \<in> set (concat (map plot_lines (active_plots wm)))"
    by (rule plot_header_in_lines)
  then show h: "lit_lb @ plot_name p @ lit_rb \<in> set (world_context_parts fmt None wm)"
    by (simp add: world_context_parts_def)
  have "sublist (plot_name p) (lit_lb @ plot_name p @ lit_rb)"
    by (rule sublist_appendI)
  with h show "sublist (plot_name p) (get_world_context fmt None wm)"
    unfolding get_world_context_def by (rule sublist_of_line)
qed









lemma join_head: "join sep (x # xs) = x @ drop (length x) (join sep (x # xs))"
  by (cases xs) simp_all



















lemma save_memory_characters [simp]: "characters (save_memory now cm) = characters cm"
  by (simp add: save_memory_def split: sum.splits)





lemma collect_map_Inr: "collect (map (\<lambda>x. Inr (f x)) xs) = Inr (map f xs)"
  by (induction xs) auto

lemma collect_map_Inr': "(\<forall>x \<in> set xs. f x = Inr (g x)) \<Longrightarrow> collect (map f xs) = Inr (map g xs)"
  by (induction xs) auto

declare json_dump.simps(6) [simp del]

lemma json_dump_PList_map:
  assumes "\<forall>x \<in> set xs. json_dump (f x) = Inr (g x)"
  shows "json_dump (PList (map f xs)) = Inr (JList (map g xs))"
proof -
  have "collect (map json_dump (map f xs)) = Inr (map g xs)"
    using assms by (induction xs) auto
  then show ?thesis by (simp only: json_dump.simps sum.case)
qed

lemma json_dump_PStrs [simp]: "json_dump (PStrs xs) = Inr (JStrs xs)"
  unfolding PStrs_def JStrs_def by (rule json_dump_PList_map) simp

lemma json_dump_PInt_opt [simp]: "json_dump (PInt_opt x) = Inr (JInt_opt x)"
  by (cases x) (simp_all add: PInt_opt_def JInt_opt_def)

lemma json_dump_asdict_all:
  "(\<forall>x \<in> set (map snd d). json_dump (f x) = Inr (g x)) \<Longrightarrow>
     json_dump (asdict_all f d) = Inr (entries_json g d)"
proof -
  assume h: "\<forall>x \<in> set (map snd d). json_dump (f x) = Inr (g x)"
  have "collect (map (\<lambda>kv. case json_dump (snd kv) of Inl e \<Rightarrow> Inl e | Inr j \<Rightarrow> Inr (fst kv, j))
           (map (\<lambda>kv. (fst kv, f (snd kv))) d))
        = Inr (map (\<lambda>kv. (fst kv, g (snd kv))) d)"
    using h by (induction d) auto
  then show ?thesis by (simp add: asdict_all_def entries_json_def)
qed

lemma json_dump_scene [simp]: "json_dump (asdict_scene s) = Inr (scene_json s)"
  by (simp add: asdict_scene_def scene_json_def)

lemma json_dump_scenes [simp]:
  "json_dump (PList (map asdict_scene xs)) = Inr (JList (map scene_json xs))"
  by (rule json_dump_PList_map) simp

lemma chapter_status_value_asdict:
  "chapter_status_value (asdict_chapter c) = PDict
     [(ascii ''id'', PStr (chapter_id c)),
      (ascii ''number'', PInt (chapter_number c)),
      (ascii ''title'', PStr (chapter_title c)),
      (ascii ''summary'', PStr (chapter_summary c)),
      (ascii ''scenes'', PList (map asdict_scene (chapter_scenes c))),
      (ascii ''status'', PStr (ChapterStatus_value (chapter_status c))),
      (ascii ''target_word_count'', PInt (chapter_target_word_count c)),
      (ascii ''actual_word_count'', PInt (chapter_actual_word_count c)),
      (ascii ''notes'', PStr (chapter_notes c)),
      (ascii ''created_at'', PStr (chapter_created_at c)),
      (ascii ''updated_at'', PStr (chapter_updated_at c))]"
  by (simp add: chapter_status_value_def asdict_chapter_def)

lemma json_dump_chapter [simp]:
  "json_dump (chapter_status_value (asdict_chapter c)) = Inr (chapter_json c)"
  by (simp add: chapter_status_value_asdict chapter_json_def)

lemma json_dump_chapter_enum: "json_dump (asdict_chapter c) = Inl TypeError"
  by (simp add: asdict_chapter_def)

lemma json_dump_chapters [simp]:
  "json_dump (PList (map (\<lambda>c. chapter_status_value (asdict_chapter c)) xs))
     = Inr (JList (map chapter_json xs))"
  by (rule json_dump_PList_map) simp

lemma story_status_values_asdict:
  "story_status_values (asdict_story s) = PDict
     [(ascii ''id'', PStr (story_id s)),
      (ascii ''title'', PStr (story_title s)),
      (ascii ''genre'', PStr (story_genre s)),
      (ascii ''summary'', PStr (story_summary s)),
      (ascii ''chapters'', PList (map (\<lambda>c. chapter_status_value (asdict_chapter c)) (story_chapters s))),
      (ascii ''target_word_count'', PInt (story_target_word_count s)),
      (ascii ''current_word_count'', PInt (story_current_word_count s)),
      (ascii ''status'', PStr (story_status s)),
      (ascii ''created_at'', PStr (story_created_at s)),
      (ascii ''updated_at'', PStr (story_updated_at s))]"
  by (simp add: story_status_values_def asdict_story_def comp_def)

lemma json_dump_story [simp]:
  "json_dump (story_status_values (asdict_story s)) = Inr (story_json s)"
  by (simp add: story_status_values_asdict story_json_def)

lemma json_dump_event [simp]: "json_dump (asdict_event e) = Inr (event_json e)"
  by (simp add: asdict_event_def event_json_def)

lemma json_dump_plot [simp]: "json_dump (asdict_plot p) = Inr (plot_json p)"
  by (simp add: asdict_plot_def plot_json_def)

lemma json_dump_setting_enum: "json_dump (asdict_setting s) = Inl TypeError"
  by (simp add: asdict_setting_def)

lemma stories_file_save_stories:
  "stories_file (save_stories m) = Document (entries_json story_json (stories m))"
proof -
  have "json_dump (asdict_all (\<lambda>s. story_status_values (asdict_story s)) (stories m))
        = Inr (entries_json story_json (stories m))"
    by (rule json_dump_asdict_all) simp
  then show ?thesis by (simp add: save_stories_def asdict_all_def)
qed


lemma strs_of_JStrs [simp]: "strs_of (JStrs xs) = xs"
  by (simp add: strs_of_def list_of_def JStrs_def str_of_def comp_def)

lemma opt_strs_of_JStrs [simp]: "opt_strs_of (JStrs xs) = Some xs"
  by (simp add: opt_strs_of_def JStrs_def str_of_def comp_def)

lemma is_strs_JStrs [simp]: "is_strs (JStrs xs)"
  by (simp add: is_strs_def JStrs_def list_all_iff is_JStr_def)

lemma of_json_simps [simp]:
  "str_of (JStr s) = s" "int_of (JInt i) = i" "opt_str_of (JStr s) = Some s"
  "is_JStr (JStr s)" "is_JInt (JInt i)" "list_of (JList xs) = xs"
  by (simp_all add: str_of_def int_of_def opt_str_of_def is_JStr_def is_JInt_def list_of_def)

lemma opt_int_of_JInt_opt [simp]: "opt_int_of (JInt_opt x) = x"
  by (cases x) (simp_all add: opt_int_of_def JInt_opt_def)

lemma is_opt_JInt_opt [simp]: "is_opt is_JInt (JInt_opt x)"
  by (cases x) (simp_all add: is_opt_def JInt_opt_def)

lemma is_optI [simp]: "P v \<Longrightarrow> is_opt P v"
  by (simp add: is_opt_def)

lemma scene_roundtrip: "scene_counted s \<Longrightarrow> scene_of_json (scene_json s) = Inr s"
  by (cases s)
    (simp add: scene_of_json_def scene_json_def has_only_keys_def has_keys_def field_def
      Scene_init_def scene_counted_def)

lemma scene_typed_json: "scene_typed (scene_json s)"
  by (simp add: scene_typed_def scene_json_def typed_field_def)

lemma collect_roundtrip:
  "(\<forall>x \<in> set xs. f (g x) = Inr x) \<Longrightarrow> collect (map f (map g xs)) = Inr xs"
  by (induction xs) auto

lemma chapter_roundtrip:
  assumes "chapter_counted c"
  shows "chapter_of_json now (chapter_json c) = Inr c"
proof -
  from assms have "\<forall>s \<in> set (chapter_scenes c). scene_of_json (scene_json s) = Inr s"
    by (simp add: chapter_counted_def list_all_iff scene_roundtrip)
  then have sc: "collect (map scene_of_json (map scene_json (chapter_scenes c))) = Inr (chapter_scenes c)"
    by (rule collect_roundtrip)
  have st: "ChapterStatus_of_value (ChapterStatus_value (chapter_status c)) = Inr (chapter_status c)"
    by (cases "chapter_status c") (simp_all add: ChapterStatus_of_value_def)
  from assms have wc: "chapter_actual_word_count c = sum_list (map scene_word_count (chapter_scenes c))"
    by (simp add: chapter_counted_def)
  show ?thesis
    using sc st wc
    by (cases c)
      (simp add: chapter_of_json_def chapter_json_def has_only_keys_def has_keys_def field_def
        Chapter_init_def Chapter_update_word_count_def ChapterStatus_of_json_def Let_def)
qed

lemma chapter_typed_json: "chapter_typed (chapter_json c)"
  by (simp add: chapter_typed_def chapter_json_def typed_field_def list_all_iff scene_typed_json)

lemma story_roundtrip:
  assumes "story_counted s"
  shows "story_of_json now (story_json s) = Inr s"
proof -
  from assms have "\<forall>c \<in> set (story_chapters s). chapter_of_json now (chapter_json c) = Inr c"
    by (simp add: story_counted_def list_all_iff chapter_roundtrip)
  then have ch: "collect (map (chapter_of_json now) (map chapter_json (story_chapters s)))
      = Inr (story_chapters s)"
    by (rule collect_roundtrip)
  from assms have wc: "story_current_word_count s
      = sum_list (map chapter_actual_word_count (story_chapters s))"
    by (simp add: story_counted_def)
  show ?thesis
    using ch wc
    by (cases s)
      (simp add: story_of_json_def story_json_def has_only_keys_def has_keys_def field_def
        Story_init_def Story_update_word_count_def Let_def)
qed

lemma story_typed_json: "story_typed (story_json s)"
  by (simp add: story_typed_def story_json_def typed_field_def list_all_iff chapter_typed_json)





lemma load_entries_roundtrip:
  assumes "distinct (map fst d)" and "\<forall>x \<in> set (map snd d). P (g x) \<and> f (g x) = Inr x"
  shows "load_entries P f (Document (entries_json g d)) = Some d"
proof -
  have "collect (map (\<lambda>kv. case f (snd kv) of Inl e \<Rightarrow> Inl e | Inr x \<Rightarrow> Inr (fst kv, x))
          (map (\<lambda>kv. (fst kv, g (snd kv))) d)) = Inr d"
    using assms(2) by (induction d) auto
  moreover have "map fst (map (\<lambda>kv. (fst kv, g (snd kv))) d) = map fst d" by simp
  moreover have "list_all P (map snd (map (\<lambda>kv. (fst kv, g (snd kv))) d))"
    using assms(2) by (simp add: list_all_iff)
  ultimately show ?thesis
    using assms(1)
    by (simp add: load_entries_def entries_typed_def entries_of_json_def entries_json_def comp_def)
qed

lemma load_stories_roundtrip:
  assumes "distinct (map fst (stories m))" and "\<forall>s \<in> set (map snd (stories m)). story_counted s"
  shows "load_stories now (stories_file (save_stories m)) = Some (stories m)"
  unfolding load_stories_def stories_file_save_stories
  using assms by (intro load_entries_roundtrip) (simp_all add: story_typed_json story_roundtrip)










lemma save_all_with_settings:
  "settings wm \<noteq> [] \<Longrightarrow> save_all wm = (Some TypeError, wm\<lparr>settings_file := Invalid\<rparr>)"
proof -
  assume "settings wm \<noteq> []"
  then obtain k s rest where "settings wm = (k, s) # rest" by (cases "settings wm") auto
  then have "json_dump (asdict_all asdict_setting (settings wm)) = Inl TypeError"
    by (simp add: asdict_all_def json_dump_setting_enum)
  then show ?thesis by (simp add: save_all_def)
qed








lemma join_append:
  "join sep (xs @ ys) = join sep xs @ (if xs = [] \<or> ys = [] then [] else sep) @ join sep ys"
proof (induction sep xs rule: join.induct)
  case (1 sep)
  then show ?case by simp
next
  case (2 sep x)
  then show ?case by (cases ys) simp_all
next
  case (3 sep x y zs)
  then show ?case by simp
qed

lemma two_lines_in_join:
  "\<exists>a b c. join sep (A @ l1 # B @ l2 # C) = a @ l1 @ b @ l2 @ c"
proof -
  have 1: "join sep (l2 # C) = l2 @ (if C = [] then [] else sep @ join sep C)"
    by (cases C) simp_all
  have 2: "join sep (B @ l2 # C) = (join sep B @ (if B = [] then [] else sep)) @ join sep (l2 # C)"
    by (simp add: join_append)
  have 3: "join sep (l1 # B @ l2 # C) = l1 @ sep @ join sep (B @ l2 # C)"
    by (cases "B @ l2 # C") simp_all
  have 4: "join sep (A @ l1 # B @ l2 # C)
      = (join sep A @ (if A = [] then [] else sep)) @ join sep (l1 # B @ l2 # C)"
    by (simp add: join_append)
  have "join sep (A @ l1 # B @ l2 # C)
      = (join sep A @ (if A = [] then [] else sep)) @ l1
        @ (sep @ join sep B @ (if B = [] then [] else sep)) @ l2
        @ (if C = [] then [] else sep @ join sep C)"
    unfolding 4 3 2 1 by simp
  then show ?thesis by blast
qed

lemma settings_lines_None:
  "settings_lines fmt None ss = concat (map (setting_lines fmt) ss)"
  by (induction ss) simp_all

lemma event_lines_split:
  "concat (map event_lines (pre @ e1 # mid @ e2 # post))
     = concat (map event_lines pre)
       @ (lit_lb @ str_int (event_year e1) @ [24180, 12305] @ event_name e1)
       # ([event_description e1, []] @ concat (map event_lines mid))
       @ (lit_lb @ str_int (event_year e2) @ [24180, 12305] @ event_name e2)
       # ([event_description e2, []] @ concat (map event_lines post))"
  by (simp add: event_lines_def)

lemma plot_lines_split:
  "concat (map plot_lines (pre @ p1 # mid @ p2 # post))
     = concat (map plot_lines pre)
       @ (lit_lb @ plot_name p1 @ lit_rb)
       # ([plot_description p1, []] @ concat (map plot_lines mid))
       @ (lit_lb @ plot_name p2 @ lit_rb)
       # ([plot_description p2, []] @ concat (map plot_lines post))"
  by (simp add: plot_lines_def)

lemma world_context_text_eq:
  "get_world_context fmt None wm =
     join lit_nl
       ([hdr_settings] @ concat (map (setting_lines fmt) (dict_values (settings wm)))
        @ [hdr_history] @ concat (map event_lines (important_events wm))
        @ [hdr_plots]
        @ concat (map plot_lines
            (filter (\<lambda>p. plot_status p = ascii ''active'') (dict_values (plot_threads wm)))))"
  by (simp add: get_world_context_def world_context_parts_def settings_lines_None active_plots_def)

lemma events_order_in_text:
  assumes "important_events wm = pre @ e1 # mid @ e2 # post"
  shows "\<exists>a b c. get_world_context fmt None wm
           = a @ (lit_lb @ str_int (event_year e1) @ [24180, 12305] @ event_name e1)
             @ b @ (lit_lb @ str_int (event_year e2) @ [24180, 12305] @ event_name e2) @ c"
proof -
  let ?h1 = "lit_lb @ str_int (event_year e1) @ [24180, 12305] @ event_name e1"
  let ?h2 = "lit_lb @ str_int (event_year e2) @ [24180, 12305] @ event_name e2"
  let ?A = "[hdr_settings] @ concat (map (setting_lines fmt) (dict_values (settings wm)))
        @ [hdr_history] @ concat (map event_lines pre)"
  let ?B = "[event_description e1, []] @ concat (map event_lines mid)"
  let ?C = "([event_description e2, []] @ concat (map event_lines post)) @ [hdr_plots]
        @ concat (map plot_lines
            (filter (\<lambda>p. plot_status p = ascii ''active'') (dict_values (plot_threads wm))))"
  have "get_world_context fmt None wm = join lit_nl (?A @ ?h1 # ?B @ ?h2 # ?C)"
    unfolding world_context_text_eq assms event_lines_split by simp
  with two_lines_in_join [of lit_nl ?A ?h1 ?B ?h2 ?C] show ?thesis by simp
qed

lemma plots_order_in_text:
  assumes "filter (\<lambda>p. plot_status p = ascii ''active'') (dict_values (plot_threads wm))
           = pre @ p1 # mid @ p2 # post"
  shows "\<exists>a b c. get_world_context fmt None wm
           = a @ (lit_lb @ plot_name p1 @ lit_rb) @ b @ (lit_lb @ plot_name p2 @ lit_rb) @ c"
proof -
  let ?h1 = "lit_lb @ plot_name p1 @ lit_rb"
  let ?h2 = "lit_lb @ plot_name p2 @ lit_rb"
  let ?A = "[hdr_settings] @ concat (map (setting_lines fmt) (dict_values (settings wm)))
        @ [hdr_history] @ concat (map event_lines (important_events wm)) @ [hdr_plots]
        @ concat (map plot_lines pre)"
  let ?B = "[plot_description p1, []] @ concat (map plot_lines mid)"
  let ?C = "[plot_description p2, []] @ concat (map plot_lines post)"
  have "get_world_context fmt None wm = join lit_nl (?A @ ?h1 # ?B @ ?h2 # ?C)"
    unfolding world_context_text_eq assms plot_lines_split by simp
  with two_lines_in_join [of lit_nl ?A ?h1 ?B ?h2 ?C] show ?thesis by simp
qed


text \<open>
  Claim C3. The text that \<open>get_world_context()\<close> returns without a category filter is
  the join, by newlines, of the settings header and the block of every stored setting, the
  history header and the blocks of the events \<open>evs\<close>, the plot header and the blocks of the
  plot threads whose status is \<open>"active"\<close>, in dictionary order. The events \<open>evs\<close> are
  exactly the stored events of importance at least 3 (no event of lower importance is one
  of them), sorted by year ascending, events of one year in dictionary order. The name of
  every stored setting, of every event of importance at least 3 and of every active thread
  is a substring of the text; of two rendered events (two rendered threads) the header
  line of the earlier one occurs in the text before that of the later one. Exclusion is
  stated of the rendered blocks: the name of an event of low importance can still occur in
  the text where another entity's text contains it.
\<close>

theorem world_context_contents:
  "\<exists>evs.
     get_world_context fmt None wm =
       join lit_nl
         ([hdr_settings] @ concat (map (setting_lines fmt) (dict_values (settings wm)))
          @ [hdr_history] @ concat (map event_lines evs)
          @ [hdr_plots]
          @ concat (map plot_lines
              (filter (\<lambda>p. plot_status p = ascii ''active'') (dict_values (plot_threads wm)))))
     \<and> sorted (map event_year evs)
     \<and> mset evs = mset (filter (\<lambda>e. 3 \<le> event_importance e) (dict_values (timeline wm)))
     \<and> (\<forall>y. filter (\<lambda>e. event_year e = y) evs
              = filter (\<lambda>e. event_year e = y \<and> 3 \<le> event_importance e)
                  (dict_values (timeline wm)))
     \<and> (\<forall>e \<in> set (dict_values (timeline wm)). event_importance e < 3 \<longrightarrow> e \<notin> set evs)
     \<and> (\<forall>e \<in> set (dict_values (timeline wm)). 3 \<le> event_importance e \<longrightarrow>
            e \<in> set evs \<and> sublist (event_name e) (get_world_context fmt None wm))
     \<and> (\<forall>s \<in> set (dict_values (settings wm)).
            sublist (setting_name s) (get_world_context fmt None wm))
     \<and> (\<forall>p \<in> set (dict_values (plot_threads wm)). plot_status p = ascii ''active'' \<longrightarrow>
            sublist (plot_name p) (get_world_context fmt None wm))
     \<and> (\<forall>pre e1 mid e2 post. evs = pre @ e1 # mid @ e2 # post \<longrightarrow>
            (\<exists>a b c. get_world_context fmt None wm
               = a @ (lit_lb @ str_int (event_year e1) @ [24180, 12305] @ event_name e1)
                 @ b @ (lit_lb @ str_int (event_year e2) @ [24180, 12305] @ event_name e2) @ c))
     \<and> (\<forall>pre p1 mid p2 post.
            filter (\<lambda>p. plot_status p = ascii ''active'') (dict_values (plot_threads wm))
              = pre @ p1 # mid @ p2 # post \<longrightarrow>
            (\<exists>a b c. get_world_context fmt None wm
               = a @ (lit_lb @ plot_name p1 @ lit_rb) @ b @ (lit_lb @ plot_name p2 @ lit_rb) @ c))"
proof (intro exI [of _ "important_events wm"] conjI ballI impI allI)
  show "get_world_context fmt None wm =
       join lit_nl
         ([hdr_settings] @ concat (map (setting_lines fmt) (dict_values (settings wm)))
          @ [hdr_history] @ concat (map event_lines (important_events wm))
          @ [hdr_plots]
          @ concat (map plot_lines
              (filter (\<lambda>p. plot_status p = ascii ''active'') (dict_values (plot_threads wm)))))"
    by (rule world_context_text_eq)
next
  show "sorted (map event_year (important_events wm))" by (simp add: important_events_def)
next
  show "mset (important_events wm)
      = mset (filter (\<lambda>e. 3 \<le> event_importance e) (dict_values (timeline wm)))"
    by (simp add: important_events_def)
next
  fix y
  show "filter (\<lambda>e. event_year e = y) (important_events wm)
              = filter (\<lambda>e. event_year e = y \<and> 3 \<le> event_importance e)
                  (dict_values (timeline wm))"
    by (simp add: important_events_def sort_key_stable conj_commute)
next
  fix e assume "e \<in> set (dict_values (timeline wm))" "event_importance e < 3"
  then show "e \<notin> set (important_events wm)" by (simp add: important_events_def)
next
  fix e assume "e \<in> set (dict_values (timeline wm))" "3 \<le> event_importance e"
  then show "e \<in> set (important_events wm)" by (simp add: important_events_def)
next
  fix e assume e: "e \<in> set (dict_values (timeline wm))" "3 \<le> event_importance e"
  from world_context_blocks [of wm fmt, THEN conjunct2, THEN conjunct2, THEN conjunct1,
      rule_format, OF e]
  show "sublist (event_name e) (get_world_context fmt None wm)" by simp
next
  fix s assume s: "s \<in> set (dict_values (settings wm))"
  from world_context_blocks [of wm fmt, THEN conjunct1, rule_format, OF s]
  show "sublist (setting_name s) (get_world_context fmt None wm)" by simp
next
  fix p assume p: "p \<in> set (dict_values (plot_threads wm))" "plot_status p = ascii ''active''"
  from world_context_blocks [of wm fmt, THEN conjunct2, THEN conjunct2, THEN conjunct2,
      rule_format, OF p]
  show "sublist (plot_name p) (get_world_context fmt None wm)" by simp
next
  fix pre e1 mid e2 post
  assume "important_events wm = pre @ e1 # mid @ e2 # post"
  then show "\<exists>a b c. get_world_context fmt None wm
               = a @ (lit_lb @ str_int (event_year e1) @ [24180, 12305] @ event_name e1)
                 @ b @ (lit_lb @ str_int (event_year e2) @ [24180, 12305] @ event_name e2) @ c"
    by (rule events_order_in_text)
next
  fix pre p1 mid p2 post
  assume "filter (\<lambda>p. plot_status p = ascii ''active'') (dict_values (plot_threads wm))
              = pre @ p1 # mid @ p2 # post"
  then show "\<exists>a b c. get_world_context fmt None wm
               = a @ (lit_lb @ plot_name p1 @ lit_rb) @ b @ (lit_lb @ plot_name p2 @ lit_rb) @ c"
    by (rule plots_order_in_text)
qed


theorem world_context_contents_witness:
  "get_world_context (\<lambda>v. []) None example_full_world =
     join lit_nl
       ([hdr_settings] @ setting_lines (\<lambda>v. []) example_setting
        @ [hdr_history]
        @ event_lines (TimelineEvent_init (ascii ''event_2'') (ascii ''B'')
             (ascii ''something happened'') 100 None None 4 (Some []) None None)
        @ event_lines (TimelineEvent_init (ascii ''event_3'') (ascii ''C'')
             (ascii ''something happened'') 300 None None 5 (Some []) None None)
        @ [hdr_plots]
        @ plot_lines (example_plot (ascii ''heir'') (ascii ''active'') []))
   \<and> sublist (ascii ''Capital'') (get_world_context (\<lambda>v. []) None example_full_world)
   \<and> sublist (ascii ''B'') (get_world_context (\<lambda>v. []) None example_full_world)
   \<and> sublist (ascii ''heir'') (get_world_context (\<lambda>v. []) None example_full_world)"
proof -
  let ?B = "TimelineEvent_init (ascii ''event_2'') (ascii ''B'') (ascii ''something happened'') 100
              None None 4 (Some []) None None"
  let ?C = "TimelineEvent_init (ascii ''event_3'') (ascii ''C'') (ascii ''something happened'') 300
              None None 5 (Some []) None None"
  let ?P = "example_plot (ascii ''heir'') (ascii ''active'') []"
  let ?text = "get_world_context (\<lambda>v. []) None example_full_world"
  from world_context_contents [of "\<lambda>v. []" example_full_world]
  obtain evs where
    eq: "?text = join lit_nl
         ([hdr_settings] @ concat (map (setting_lines (\<lambda>v. [])) (dict_values (settings example_full_world)))
          @ [hdr_history] @ concat (map event_lines evs)
          @ [hdr_plots]
          @ concat (map plot_lines
              (filter (\<lambda>p. plot_status p = ascii ''active'')
                 (dict_values (plot_threads example_full_world)))))"
    and srt: "sorted (map event_year evs)"
    and ms: "mset evs = mset (filter (\<lambda>e. 3 \<le> event_importance e)
                               (dict_values (timeline example_full_world)))"
    and ev: "\<forall>e \<in> set (dict_values (timeline example_full_world)). 3 \<le> event_importance e \<longrightarrow>
            e \<in> set evs \<and> sublist (event_name e) ?text"
    and st: "\<forall>s \<in> set (dict_values (settings example_full_world)). sublist (setting_name s) ?text"
    and pl: "\<forall>p \<in> set (dict_values (plot_threads example_full_world)).
               plot_status p = ascii ''active'' \<longrightarrow> sublist (plot_name p) ?text"
    by (elim exE conjE) blast
  have tl: "dict_values (timeline example_full_world)
      = [TimelineEvent_init (ascii ''event_1'') (ascii ''A'') (ascii ''something happened'') 500
              None None 2 (Some []) None None, ?B, ?C]"
    by (simp add: example_full_world_def example_timeline_events dict_values_def)
  have f: "filter (\<lambda>e. 3 \<le> event_importance e) (dict_values (timeline example_full_world)) = [?B, ?C]"
    by (simp add: tl) (simp add: TimelineEvent_init_def)
  from ms f have ms': "mset evs = mset [?B, ?C]" by simp
  then have "length evs = length [?B, ?C]" by (rule mset_eq_length)
  then obtain x y where xy: "evs = [x, y]"
    by (auto simp: length_Suc_conv)
  from ms' have "set evs = set [?B, ?C]" by (rule mset_eq_setD)
  with xy have "(x = ?B \<and> y = ?C) \<or> (x = ?C \<and> y = ?B)"
    by (auto simp: doubleton_eq_iff)
  moreover from srt xy have "event_year x \<le> event_year y" by simp
  moreover have "event_year ?B = 100" "event_year ?C = 300" by (simp_all add: TimelineEvent_init_def)
  ultimately have evs: "evs = [?B, ?C]" using xy by auto
  have se: "dict_values (settings example_full_world) = [example_setting]"
    by (simp add: example_full_world_def dict_values_def)
  have pf: "filter (\<lambda>p. plot_status p = ascii ''active'')
       (dict_values (plot_threads example_full_world)) = [?P]"
    by (simp add: example_full_world_def dict_values_def)
  have 1: "?text = join lit_nl
       ([hdr_settings] @ setting_lines (\<lambda>v. []) example_setting
        @ [hdr_history] @ event_lines ?B @ event_lines ?C
        @ [hdr_plots] @ plot_lines ?P)"
    unfolding eq evs se pf by simp
  have "example_setting \<in> set (dict_values (settings example_full_world))" by (simp add: se)
  with st have "sublist (setting_name example_setting) ?text" by blast
  then have 2: "sublist (ascii ''Capital'') ?text"
    by (simp add: example_setting_def WorldSetting_init_def Let_def)
  have "?B \<in> set (dict_values (timeline example_full_world))" by (simp add: tl)
  moreover have "3 \<le> event_importance ?B" by (simp add: TimelineEvent_init_def)
  ultimately have "sublist (event_name ?B) ?text" using ev by blast
  then have 3: "sublist (ascii ''B'') ?text" by (simp add: TimelineEvent_init_def)
  have "?P \<in> set (dict_values (plot_threads example_full_world))"
    by (simp add: example_full_world_def dict_values_def)
  moreover have "plot_status ?P = ascii ''active''" by simp
  ultimately have "sublist (plot_name ?P) ?text" using pl by blast
  then have 4: "sublist (ascii ''heir'') ?text" by simp
  from 1 2 3 4 show ?thesis by (intro conjI)
qed



































lemma chapter_json_status:
  "\<exists>kv. chapter_json c = JObj kv
     \<and> map_of kv (ascii ''status'') = Some (JStr (ChapterStatus_value (chapter_status c)))"
  by (simp add: chapter_json_def)





lemma stories_save_stories [simp]: "stories (save_stories m) = stories m"
  by (simp add: save_stories_def split: sum.splits)

lemma dict_set_consistent:
  "list_all P (map snd d) \<Longrightarrow> P v \<Longrightarrow> list_all P (map snd (dict_set d k v))"
  by (induction d k v rule: dict_set.induct) auto

lemma map_of_consistent:
  "list_all P (map snd d) \<Longrightarrow> map_of d k = Some v \<Longrightarrow> P v"
  by (induction d) (auto split: if_splits)

lemma list_update_all: "list_all P xs \<Longrightarrow> P y \<Longrightarrow> list_all P (xs[i := y])"
  by (auto simp: list_all_iff dest: set_update_subset_insert [THEN subsetD])

lemma sum_list_update_same:
  "i < length xs \<Longrightarrow> f y = f (xs ! i) \<Longrightarrow> sum_list (map f (xs[i := y])) = sum_list (map f xs)"
proof -
  assume h: "i < length xs" "f y = f (xs ! i)"
  have "(map f xs)[i := (map f xs) ! i] = map f xs" by (rule list_update_id)
  with h show ?thesis by (simp add: map_update)
qed

lemma py_pos_lt: "py_pos n i = Some j \<Longrightarrow> j < n"
  by (auto simp: py_pos_def Let_def split: if_splits)

lemma scene_counts_sum:
  "list_all scene_consistent ss \<Longrightarrow>
     sum_list (map scene_word_count ss) = sum_list (map (\<lambda>s. int (length (scene_content s))) ss)"
  by (induction ss) (simp_all add: scene_consistent_def)

lemma create_story_consistent:
  "store_consistent m \<Longrightarrow> store_consistent (snd (create_story ts now title genre summary m))"
  by (simp add: store_consistent_def dict_values_def create_story_def Let_def dict_set_consistent
        story_consistent_def Story_init_def Story_update_word_count_def)

lemma add_chapter_consistent:
  assumes "store_consistent m" and "add_chapter now now' sid title summary m = Inr r"
  shows "store_consistent (snd r)"
proof -
  from assms(2) obtain story where st: "map_of (stories m) sid = Some story"
    by (auto simp: add_chapter_def split: option.splits)
  from assms(1) st have sc: "story_consistent story"
    by (auto simp: store_consistent_def dict_values_def intro: map_of_consistent)
  let ?chapter = "Chapter_init now (sid @ ascii ''_chapter_'' @ str_int (int (length (story_chapters story)) + 1))
      (int (length (story_chapters story)) + 1) title summary [] PLANNED 3000 0 [] None None"
  let ?story = "story\<lparr>story_chapters := story_chapters story @ [?chapter], story_updated_at := now'\<rparr>"
  have c: "chapter_consistent ?chapter" "chapter_actual_word_count ?chapter = 0"
    by (simp_all add: chapter_consistent_def Chapter_init_def Chapter_update_word_count_def Let_def)
  have "story_consistent ?story"
    using sc c by (simp add: story_consistent_def)
  moreover have "snd r = save_stories (m\<lparr>stories := dict_set (stories m) sid ?story\<rparr>)"
    using assms(2) st by (auto simp: add_chapter_def Let_def)
  ultimately show ?thesis
    using assms(1) by (simp add: store_consistent_def dict_values_def dict_set_consistent)
qed

lemma add_scene_consistent:
  assumes "store_consistent m"
    and "add_scene now sid number name description location chars purpose m = Inr r"
  shows "store_consistent (snd r)"
proof -
  from assms(2) obtain story where st: "map_of (stories m) sid = Some story"
    by (auto simp: add_scene_def split: option.splits)
  from assms(2) st obtain i where i: "py_pos (length (story_chapters story)) (number - 1) = Some i"
    by (auto simp: add_scene_def split: option.splits if_splits)
  then have il: "i < length (story_chapters story)" by (rule py_pos_lt)
  from assms(1) st have sc: "story_consistent story"
    by (auto simp: store_consistent_def dict_values_def intro: map_of_consistent)
  let ?chapter = "story_chapters story ! i"
  let ?scene = "Scene_init (chapter_id ?chapter @ ascii ''_scene_''
                               @ str_int (int (length (chapter_scenes ?chapter)) + 1))
                  name description location chars purpose [] 0 [] None"
  let ?chapter' = "?chapter\<lparr>chapter_scenes := chapter_scenes ?chapter @ [?scene]\<rparr>"
  let ?story = "story\<lparr>story_chapters := (story_chapters story)[i := ?chapter'],
                                      story_updated_at := now\<rparr>"
  from sc il have cc: "chapter_consistent ?chapter"
    by (simp add: story_consistent_def list_all_length)
  have s: "scene_consistent ?scene" "scene_content ?scene = []"
    by (simp_all add: scene_consistent_def Scene_init_def)
  have cc': "chapter_consistent ?chapter'"
    using cc s by (simp add: chapter_consistent_def)
  have "sum_list (map chapter_actual_word_count ((story_chapters story)[i := ?chapter']))
        = sum_list (map chapter_actual_word_count (story_chapters story))"
    using il by (intro sum_list_update_same) simp_all
  then have "story_consistent ?story"
    using sc cc' by (simp add: story_consistent_def list_update_all)
  moreover have "snd r = save_stories (m\<lparr>stories := dict_set (stories m) sid ?story\<rparr>)"
    using assms(2) st i by (auto simp: add_scene_def Let_def split: if_splits)
  ultimately show ?thesis
    using assms(1) by (simp add: store_consistent_def dict_values_def dict_set_consistent)
qed

lemma update_scene_content_consistent:
  assumes "store_consistent m"
    and "update_scene_content now sid number scene_index content m = Inr m'"
  shows "store_consistent m'"
proof -
  from assms(2) obtain story where st: "map_of (stories m) sid = Some story"
    by (auto simp: update_scene_content_def split: option.splits)
  from assms(2) st obtain i where i: "py_pos (length (story_chapters story)) (number - 1) = Some i"
    by (auto simp: update_scene_content_def split: option.splits)
  let ?chapter = "story_chapters story ! i"
  from assms(2) st i obtain j where j: "py_pos (length (chapter_scenes ?chapter)) scene_index = Some j"
    by (auto simp: update_scene_content_def Let_def split: option.splits)
  from i have il: "i < length (story_chapters story)" by (rule py_pos_lt)
  from assms(1) st have sc: "story_consistent story"
    by (auto simp: store_consistent_def dict_values_def intro: map_of_consistent)
  let ?scene' = "(chapter_scenes ?chapter ! j)\<lparr>scene_content := content,
                                        scene_word_count := int (length content)\<rparr>"
  let ?chapter' = "Chapter_update_word_count
                     (?chapter\<lparr>chapter_scenes := (chapter_scenes ?chapter)[j := ?scene']\<rparr>)"
  let ?story = "(Story_update_word_count
                   (story\<lparr>story_chapters := (story_chapters story)[i := ?chapter']\<rparr>))
                   \<lparr>story_updated_at := now\<rparr>"
  from sc il have cc: "chapter_consistent ?chapter"
    by (simp add: story_consistent_def list_all_length)
  have s: "scene_consistent ?scene'" by (simp add: scene_consistent_def)
  have ss: "list_all scene_consistent ((chapter_scenes ?chapter)[j := ?scene'])"
    using cc s by (simp add: chapter_consistent_def list_update_all)
  have cc': "chapter_consistent ?chapter'"
    using ss scene_counts_sum [OF ss]
    by (simp add: chapter_consistent_def Chapter_update_word_count_def)
  have "story_consistent ?story"
    using sc cc' by (simp add: story_consistent_def Story_update_word_count_def list_update_all)
  moreover have "m' = save_stories (m\<lparr>stories := dict_set (stories m) sid ?story\<rparr>)"
    using assms(2) st i j by (auto simp: update_scene_content_def Let_def)
  ultimately show ?thesis
    using assms(1) by (simp add: store_consistent_def dict_values_def dict_set_consistent)
qed

lemma call_consistent: "store_consistent m \<Longrightarrow> store_consistent (call c m)"
proof (cases c)
  case (CreateStory ts now title genre summary)
  assume "store_consistent m"
  then show ?thesis using CreateStory by (simp add: create_story_consistent)
next
  case (AddChapter now now' sid title summary)
  assume "store_consistent m"
  then show ?thesis using AddChapter
    by (auto split: sum.splits dest: add_chapter_consistent)
next
  case (AddScene now sid number name description location chars purpose)
  assume "store_consistent m"
  then show ?thesis using AddScene
    by (auto split: sum.splits dest: add_scene_consistent)
next
  case (UpdateSceneContent now sid number scene_index content)
  assume "store_consistent m"
  then show ?thesis using UpdateSceneContent
    by (auto split: sum.splits dest: update_scene_content_consistent)
qed

lemma calls_consistent: "store_consistent m \<Longrightarrow> store_consistent (calls cs m)"
  by (induction cs arbitrary: m) (simp_all add: call_consistent)


lemma scene_consistent_counted: "scene_consistent s \<Longrightarrow> scene_counted s"
  by (simp add: scene_consistent_def scene_counted_def)

lemma chapter_consistent_counted: "chapter_consistent c \<Longrightarrow> chapter_counted c"
  by (simp add: chapter_consistent_def chapter_counted_def scene_counts_sum)
     (simp add: list_all_iff scene_consistent_counted)

lemma story_consistent_counted: "story_consistent s \<Longrightarrow> story_counted s"
  by (simp add: story_consistent_def story_counted_def)
     (simp add: list_all_iff chapter_consistent_counted)

lemma store_consistent_iff:
  "store_consistent m \<longleftrightarrow>
     (\<forall>story \<in> set (dict_values (stories m)).
        story_current_word_count story
          = sum_list (map chapter_actual_word_count (story_chapters story))
        \<and> (\<forall>c \<in> set (story_chapters story).
             chapter_actual_word_count c
               = sum_list (map (\<lambda>s. int (length (scene_content s))) (chapter_scenes c))
             \<and> (\<forall>s \<in> set (chapter_scenes c). scene_word_count s = int (length (scene_content s)))))"
  by (simp add: store_consistent_def story_consistent_def chapter_consistent_def
        scene_consistent_def list_all_iff)

lemma StoryManager_init_reload:
  assumes "store_consistent m" and "distinct (dict_keys (stories m))"
  shows "StoryManager_init now (stories_file (save_stories m))
         = Some \<lparr> stories = stories m, current_story_id = None,
                  stories_file = stories_file (save_stories m) \<rparr>"
proof -
  have "\<forall>s \<in> set (map snd (stories m)). story_counted s"
    using assms(1)
    by (auto simp: store_consistent_def dict_values_def list_all_iff intro: story_consistent_counted)
  with assms(2) have "load_stories now (stories_file (save_stories m)) = Some (stories m)"
    by (intro load_stories_roundtrip) (simp_all add: dict_keys_def)
  then show ?thesis by (simp add: StoryManager_init_def)
qed

lemma StoryManager_init_new:
  "file = Absent \<or> file = Invalid \<Longrightarrow>
     StoryManager_init now file = Some \<lparr> stories = [], current_story_id = None, stories_file = file \<rparr>"
  by (auto simp: StoryManager_init_def load_stories_def load_entries_def)

text \<open>
  Claim C1. A store is consistent when, for every story in it, \<open>current_word_count\<close> is
  the sum of the \<open>actual_word_count\<close> of its chapters, every chapter's
  \<open>actual_word_count\<close> is the sum of \<open>len(scene.content)\<close> over its scenes, and every scene's
  \<open>word_count\<close> is the length of its content. Any sequence of \<open>create_story\<close>,
  \<open>add_chapter\<close>, \<open>add_scene\<close> and \<open>update_scene_content\<close> calls takes a consistent store to
  a consistent store; the store of a new manager (no stories file, or one that cannot be
  read) is empty, so after any sequence of calls on it every story is consistent; and a
  manager started on the file that a consistent store saved has the same stories again.
\<close>

theorem word_counts_after_calls:
  "(store_consistent m \<longleftrightarrow>
      (\<forall>story \<in> set (dict_values (stories m)).
         story_current_word_count story
           = sum_list (map chapter_actual_word_count (story_chapters story))
         \<and> (\<forall>c \<in> set (story_chapters story).
              chapter_actual_word_count c
                = sum_list (map (\<lambda>s. int (length (scene_content s))) (chapter_scenes c))
              \<and> (\<forall>s \<in> set (chapter_scenes c).
                   scene_word_count s = int (length (scene_content s))))))
   \<and> (store_consistent m \<longrightarrow> store_consistent (calls cs m))
   \<and> (file = Absent \<or> file = Invalid \<longrightarrow>
        (\<exists>m0. StoryManager_init now file = Some m0 \<and> stories m0 = []
              \<and> store_consistent (calls cs m0)))
   \<and> (store_consistent m \<and> distinct (dict_keys (stories m)) \<longrightarrow>
        (\<exists>m0. StoryManager_init now (stories_file (save_stories m)) = Some m0
              \<and> stories m0 = stories m \<and> store_consistent (calls cs m0)))"
proof (intro conjI impI)
  show "store_consistent m \<longleftrightarrow>
      (\<forall>story \<in> set (dict_values (stories m)).
         story_current_word_count story
           = sum_list (map chapter_actual_word_count (story_chapters story))
         \<and> (\<forall>c \<in> set (story_chapters story).
              chapter_actual_word_count c
                = sum_list (map (\<lambda>s. int (length (scene_content s))) (chapter_scenes c))
              \<and> (\<forall>s \<in> set (chapter_scenes c).
                   scene_word_count s = int (length (scene_content s)))))"
    by (rule store_consistent_iff)
next
  assume "store_consistent m"
  then show "store_consistent (calls cs m)" by (rule calls_consistent)
next
  assume f: "file = Absent \<or> file = Invalid"
  let ?m0 = "\<lparr> stories = [], current_story_id = None, stories_file = file \<rparr>"
  have "store_consistent ?m0" by (simp add: store_consistent_def dict_values_def)
  then have "store_consistent (calls cs ?m0)" by (rule calls_consistent)
  with StoryManager_init_new [OF f, of now]
  show "\<exists>m0. StoryManager_init now file = Some m0 \<and> stories m0 = []
              \<and> store_consistent (calls cs m0)"
    by simp
next
  assume h: "store_consistent m \<and> distinct (dict_keys (stories m))"
  let ?m0 = "\<lparr> stories = stories m, current_story_id = None,
                  stories_file = stories_file (save_stories m) \<rparr>"
  from h have "store_consistent ?m0" by (simp add: store_consistent_def)
  then have "store_consistent (calls cs ?m0)" by (rule calls_consistent)
  with StoryManager_init_reload [of m now] h
  show "\<exists>m0. StoryManager_init now (stories_file (save_stories m)) = Some m0
              \<and> stories m0 = stories m \<and> store_consistent (calls cs m0)"
    by simp
qed

lemma example_store_consistent:
  "store_consistent (example_manager [example_chapter 1 DRAFTING [example_scene]])"
  by (simp add: store_consistent_def dict_values_def example_manager_def example_story_def
        example_chapter_def example_scene_def story_consistent_def chapter_consistent_def
        scene_consistent_def Story_init_def Chapter_init_def Scene_init_def
        Story_update_word_count_def Chapter_update_word_count_def Let_def)

lemma example_calls_word_counts:
  "example_word_counts
     (calls (example_calls (ascii ''s1'') 2) (example_manager [example_chapter 1 DRAFTING [example_scene]]))
   = [(14, [(10, [(10, ascii ''Rain fell.'')]), (4, [(4, ascii ''Sun.'')])])]"
  by (simp add: example_word_counts_def example_calls_def dict_values_def example_manager_def
        example_story_def example_chapter_def example_scene_def
        add_chapter_def add_scene_def update_scene_content_def py_pos_def
        Story_init_def Chapter_init_def Scene_init_def
        Story_update_word_count_def Chapter_update_word_count_def Let_def ascii_def)


lemma example_new_calls_word_counts:
  "example_word_counts
     (calls (CreateStory 7 (ascii ''2024-03-01T00:00:00'') (ascii ''Voyage'') (ascii ''fantasy'')
               (ascii ''A sea voyage'') # example_calls (ascii ''story_1_7'') 1)
        \<lparr> stories = [], current_story_id = None, stories_file = Absent \<rparr>)
   = [(4, [(4, [(4, ascii ''Sun.'')])])]"
  by (simp add: example_word_counts_def example_calls_def dict_values_def
        create_story_def add_chapter_def add_scene_def update_scene_content_def py_pos_def
        Story_init_def Chapter_init_def Scene_init_def str_int_digit
        Story_update_word_count_def Chapter_update_word_count_def Let_def ascii_def)

text \<open>
  The example store with one chapter of ten characters, after a chapter, a scene and four
  characters of content are added: the story counts 14, its chapters 10 and 4. The same
  calls after \<open>create_story\<close> on a new manager: the story counts 4.
\<close>

theorem word_counts_after_calls_witness:
  "store_consistent (example_manager [example_chapter 1 DRAFTING [example_scene]])
   \<and> store_consistent
        (calls (example_calls (ascii ''s1'') 2)
           (example_manager [example_chapter 1 DRAFTING [example_scene]]))
   \<and> example_word_counts
        (calls (example_calls (ascii ''s1'') 2)
           (example_manager [example_chapter 1 DRAFTING [example_scene]]))
      = [(14, [(10, [(10, ascii ''Rain fell.'')]), (4, [(4, ascii ''Sun.'')])])]
   \<and> (\<exists>m0. StoryManager_init (ascii ''2024-03-01T00:00:00'') Absent = Some m0 \<and> stories m0 = []
         \<and> store_consistent
              (calls (CreateStory 7 (ascii ''2024-03-01T00:00:00'') (ascii ''Voyage'')
                        (ascii ''fantasy'') (ascii ''A sea voyage'')
                      # example_calls (ascii ''story_1_7'') 1) m0))
   \<and> example_word_counts
        (calls (CreateStory 7 (ascii ''2024-03-01T00:00:00'') (ascii ''Voyage'') (ascii ''fantasy'')
                  (ascii ''A sea voyage'') # example_calls (ascii ''story_1_7'') 1)
           \<lparr> stories = [], current_story_id = None, stories_file = Absent \<rparr>)
      = [(4, [(4, [(4, ascii ''Sun.'')])])]
   \<and> (\<exists>m0. StoryManager_init (ascii ''2024-03-01T00:00:00'')
               (stories_file (save_stories (example_manager [example_chapter 1 DRAFTING [example_scene]])))
             = Some m0
         \<and> stories m0 = stories (example_manager [example_chapter 1 DRAFTING [example_scene]])
         \<and> store_consistent (calls (example_calls (ascii ''s1'') 2) m0))"
proof -
  let ?m = "example_manager [example_chapter 1 DRAFTING [example_scene]]"
  let ?now = "ascii ''2024-03-01T00:00:00''"
  let ?cs = "CreateStory 7 ?now (ascii ''Voyage'') (ascii ''fantasy'') (ascii ''A sea voyage'')
               # example_calls (ascii ''story_1_7'') 1"
  note t = word_counts_after_calls [of ?m "example_calls (ascii ''s1'') 2" Absent ?now]
  note t' = word_counts_after_calls [of ?m ?cs Absent ?now]
  have h: "store_consistent ?m" by (rule example_store_consistent)
  have d: "distinct (dict_keys (stories ?m))" by (simp add: example_manager_def dict_keys_def)
  from t [THEN conjunct2, THEN conjunct1, rule_format, OF h]
  have c2: "store_consistent (calls (example_calls (ascii ''s1'') 2) ?m)" .
  from t' [THEN conjunct2, THEN conjunct2, THEN conjunct1, rule_format]
  have c4: "\<exists>m0. StoryManager_init ?now Absent = Some m0 \<and> stories m0 = []
              \<and> store_consistent (calls ?cs m0)"
    by simp
  from t [THEN conjunct2, THEN conjunct2, THEN conjunct2, rule_format] h d
  have c6: "\<exists>m0. StoryManager_init ?now (stories_file (save_stories ?m)) = Some m0
         \<and> stories m0 = stories ?m
         \<and> store_consistent (calls (example_calls (ascii ''s1'') 2) m0)"
    by blast
  from h c2 example_calls_word_counts c4 example_new_calls_word_counts c6
  show ?thesis by blast
qed


lemma str_nat_digits: "c \<in> set (str_nat n) \<Longrightarrow> 48 \<le> c \<and> c \<le> 57"
proof (induction n rule: str_nat.induct)
  case (1 n)
  show ?case
  proof (cases "n < 10")
    case True
    with 1(2) show ?thesis by (simp add: str_nat.simps [of n])
  next
    case False
    with 1(2) have "c \<in> set (str_nat (n div 10)) \<or> c = 48 + n mod 10"
      by (auto simp: str_nat.simps [of n])
    then show ?thesis
    proof
      assume "c \<in> set (str_nat (n div 10))"
      with 1(1) False show ?thesis by simp
    next
      assume "c = 48 + n mod 10"
      moreover have "n mod 10 < 10" by simp
      ultimately show ?thesis by linarith
    qed
  qed
qed

lemma str_nat_no_underscore: "95 \<notin> set (str_nat n)"
  using str_nat_digits [of 95 n] by auto

lemma str_nat_nonempty: "str_nat n \<noteq> []"
  by (subst str_nat.simps) simp

lemma str_nat_inj: "str_nat a = str_nat b \<Longrightarrow> a = b"
proof (induction a arbitrary: b rule: str_nat.induct)
  case (1 a)
  show ?case
  proof (cases "a < 10")
    case True
    note a = this
    show ?thesis
    proof (cases "b < 10")
      case True
      with a 1(2) show ?thesis by (simp add: str_nat.simps [of a] str_nat.simps [of b])
    next
      case False
      with a 1(2) have "[48 + a] = str_nat (b div 10) @ [48 + b mod 10]"
        by (simp add: str_nat.simps [of a] str_nat.simps [of b])
      then have "str_nat (b div 10) = []" by (metis append1_eq_conv append_Nil)
      then show ?thesis by (simp add: str_nat_nonempty)
    qed
  next
    case False
    note a = this
    show ?thesis
    proof (cases "b < 10")
      case True
      with a 1(2) have "str_nat (a div 10) @ [48 + a mod 10] = [48 + b]"
        by (simp add: str_nat.simps [of a] str_nat.simps [of b])
      then have "str_nat (a div 10) = []" by (metis append1_eq_conv append_Nil)
      then show ?thesis by (simp add: str_nat_nonempty)
    next
      case False
      with a 1(2) have "str_nat (a div 10) @ [48 + a mod 10] = str_nat (b div 10) @ [48 + b mod 10]"
        by (simp add: str_nat.simps [of a] str_nat.simps [of b])
      then have e: "str_nat (a div 10) = str_nat (b div 10)" and m: "a mod 10 = b mod 10"
        by simp_all
      from 1(1) [OF a e] have "a div 10 = b div 10" .
      with m show ?thesis by (metis div_mult_mod_eq)
    qed
  qed
qed

lemma prefix_separator:
  assumes "prefix (xs @ [c]) (ys @ [c])" and "c \<notin> set ys"
  shows "xs = ys"
proof -
  from assms(1) obtain z where z: "ys @ [c] = (xs @ [c]) @ z" by (auto simp: prefix_def)
  show ?thesis
  proof (cases z rule: rev_cases)
    case Nil
    with z show ?thesis by simp
  next
    case (snoc z' c')
    with z have "ys @ [c] = (xs @ [c] @ z') @ [c']" by simp
    then have "ys = xs @ [c] @ z'" by (simp only: append1_eq_conv)
    with assms(2) show ?thesis by simp
  qed
qed

lemma story_id_prefix_inj:
  assumes "prefix (story_id_prefix i) k" and "prefix (story_id_prefix j) k"
  shows "i = j"
proof -
  from assms have "prefix (story_id_prefix i) (story_id_prefix j)
                   \<or> prefix (story_id_prefix j) (story_id_prefix i)"
    by (rule prefix_same_cases)
  then have "prefix (str_nat i @ [95]) (str_nat j @ [95]) \<or> prefix (str_nat j @ [95]) (str_nat i @ [95])"
    by (simp add: story_id_prefix_def str_int_def ascii_def)
  then have "str_nat i = str_nat j"
    using prefix_separator [of "str_nat i" 95 "str_nat j"] prefix_separator [of "str_nat j" 95 "str_nat i"]
      str_nat_no_underscore by auto
  then show ?thesis by (rule str_nat_inj)
qed

lemma create_story_id:
  "fst (create_story ts now title genre summary m)
     = ascii ''story_'' @ str_int (int (length (stories m)) + 1) @ ascii ''_'' @ str_int ts"
  by (simp add: create_story_def Let_def)

lemma create_story_id_prefix:
  "prefix (story_id_prefix (Suc (length (stories m)))) (fst (create_story ts now title genre summary m))"
proof -
  have "int (Suc (length (stories m))) = int (length (stories m)) + 1" by simp
  then show ?thesis
    by (simp only: create_story_id story_id_prefix_def) (simp add: prefix_def)
qed

lemma create_story_fresh_id:
  assumes "ids_generated m"
  shows "fst (create_story ts now title genre summary m) \<notin> set (dict_keys (stories m))"
proof
  let ?sid = "fst (create_story ts now title genre summary m)"
  assume "?sid \<in> set (dict_keys (stories m))"
  with assms obtain i where i: "i \<in> set [1..<Suc (length (dict_keys (stories m)))]"
    and p: "prefix (story_id_prefix i) ?sid"
    by (auto simp: ids_generated_def Let_def list_all_iff list_ex_iff)
  from story_id_prefix_inj [OF p create_story_id_prefix] have "i = Suc (length (stories m))" .
  with i show False by (simp add: dict_keys_def)
qed

lemma dict_set_new: "k \<notin> set (map fst d) \<Longrightarrow> dict_set d k v = d @ [(k, v)]"
  by (induction d k v rule: dict_set.induct) auto

lemma dict_set_old: "map_of d k = Some v \<Longrightarrow> map fst (dict_set d k v') = map fst d"
  by (induction d k v' rule: dict_set.induct) (auto split: if_splits)

lemma map_of_dict_set: "map_of (dict_set d k v) k = Some v"
  by (induction d k v rule: dict_set.induct) auto

lemma create_story_stories:
  "stories (snd (create_story ts now title genre summary m))
     = dict_set (stories m) (fst (create_story ts now title genre summary m))
         (Story_init now (fst (create_story ts now title genre summary m)) title genre summary []
            50000 0 (ascii ''planning'') None None)"
  by (simp add: create_story_def Let_def)

lemma create_story_ids_generated:
  assumes "ids_generated m"
  shows "ids_generated (snd (create_story ts now title genre summary m))"
proof -
  let ?sid = "fst (create_story ts now title genre summary m)"
  let ?ks = "dict_keys (stories m)"
  from create_story_fresh_id [OF assms] have "?sid \<notin> set (map fst (stories m))"
    by (simp add: dict_keys_def)
  then have k: "dict_keys (stories (snd (create_story ts now title genre summary m))) = ?ks @ [?sid]"
    by (simp add: create_story_stories dict_set_new dict_keys_def)
  have old: "list_ex (\<lambda>i. prefix (story_id_prefix i) k) [1..<Suc (Suc (length ?ks))]"
    if "k \<in> set ?ks" for k
    using assms that by (auto simp: ids_generated_def Let_def list_all_iff list_ex_iff)
  have new: "list_ex (\<lambda>i. prefix (story_id_prefix i) ?sid) [1..<Suc (Suc (length ?ks))]"
    using create_story_id_prefix [of m ts now title genre summary]
    by (auto simp: list_ex_iff dict_keys_def)
  show ?thesis
    unfolding ids_generated_def Let_def k using old new by (simp add: list_all_iff)
qed

lemma add_chapter_keys:
  "add_chapter now now' sid title summary m = Inr r \<Longrightarrow> dict_keys (stories (snd r)) = dict_keys (stories m)"
  by (auto simp: add_chapter_def Let_def dict_keys_def dict_set_old split: option.splits)

lemma add_scene_keys:
  "add_scene now sid number name description location chars purpose m = Inr r
     \<Longrightarrow> dict_keys (stories (snd r)) = dict_keys (stories m)"
  by (auto simp: add_scene_def Let_def dict_keys_def dict_set_old split: option.splits if_splits)

lemma update_scene_content_keys:
  "update_scene_content now sid number scene_index content m = Inr m'
     \<Longrightarrow> dict_keys (stories m') = dict_keys (stories m)"
  by (auto simp: update_scene_content_def Let_def dict_keys_def dict_set_old split: option.splits)

lemma ids_generated_keys:
  "dict_keys (stories m') = dict_keys (stories m) \<Longrightarrow> ids_generated m' = ids_generated m"
  by (simp add: ids_generated_def)

lemma call_ids_generated: "ids_generated m \<Longrightarrow> ids_generated (call c m)"
proof (cases c)
  case (CreateStory ts now title genre summary)
  assume "ids_generated m"
  then show ?thesis using CreateStory by (simp add: create_story_ids_generated)
next
  case (AddChapter now now' sid title summary)
  assume h: "ids_generated m"
  show ?thesis
  proof (cases "add_chapter now now' sid title summary m")
    case (Inl e)
    with h AddChapter show ?thesis by simp
  next
    case (Inr r)
    from ids_generated_keys [OF add_chapter_keys [OF Inr]] h AddChapter Inr show ?thesis by simp
  qed
next
  case (AddScene now sid number name description location chars purpose)
  assume h: "ids_generated m"
  show ?thesis
  proof (cases "add_scene now sid number name description location chars purpose m")
    case (Inl e)
    with h AddScene show ?thesis by simp
  next
    case (Inr r)
    from ids_generated_keys [OF add_scene_keys [OF Inr]] h AddScene Inr show ?thesis by simp
  qed
next
  case (UpdateSceneContent now sid number scene_index content)
  assume h: "ids_generated m"
  show ?thesis
  proof (cases "update_scene_content now sid number scene_index content m")
    case (Inl e)
    with h UpdateSceneContent show ?thesis by simp
  next
    case (Inr m')
    from ids_generated_keys [OF update_scene_content_keys [OF Inr]] h UpdateSceneContent Inr
    show ?thesis by simp
  qed
qed

lemma calls_ids_generated: "ids_generated m \<Longrightarrow> ids_generated (calls cs m)"
  by (induction cs arbitrary: m) (simp_all add: call_ids_generated)


lemma create_story_retrievable:
  "\<exists>story. map_of (stories (snd (create_story ts now title genre summary m)))
                (fst (create_story ts now title genre summary m)) = Some story
      \<and> story_id story = fst (create_story ts now title genre summary m)
      \<and> story_title story = title \<and> story_genre story = genre \<and> story_summary story = summary
      \<and> story_current_word_count story = 0 \<and> story_chapters story = []"
  by (simp add: create_story_stories map_of_dict_set)
     (simp add: Story_init_def Story_update_word_count_def Let_def)

lemma ids_generated_iff:
  "ids_generated m \<longleftrightarrow>
     (\<forall>k \<in> set (dict_keys (stories m)).
        \<exists>i. 1 \<le> i \<and> i \<le> length (stories m)
            \<and> prefix (ascii ''story_'' @ str_int (int i) @ ascii ''_'') k)"
proof -
  have s: "set [1..<Suc (length (dict_keys (stories m)))] = {i. 1 \<le> i \<and> i \<le> length (stories m)}"
    by (auto simp: dict_keys_def)
  show ?thesis
    unfolding ids_generated_def Let_def list_all_iff list_ex_iff story_id_prefix_def s by blast
qed

text \<open>
  Claim C8. \<open>create_story\<close> returns the id made of the running index \<open>len(stories) + 1\<close>
  and the timestamp, and right after the call the store holds under that id a story with
  the given title, genre and summary, \<open>current_word_count\<close> 0 and no chapters. In a store
  whose ids the manager generated, the returned id is not among the ids of the store before
  the call, whatever the timestamp is: stories are never removed, so the index is new. The
  store of a new manager is such a store, and so is every store that any sequence of
  \<open>create_story\<close>, \<open>add_chapter\<close>, \<open>add_scene\<close> and \<open>update_scene_content\<close> calls makes of
  one.
\<close>

theorem create_story_fresh:
  "fst (create_story ts now title genre summary m)
     = ascii ''story_'' @ str_int (int (length (stories m)) + 1) @ ascii ''_'' @ str_int ts
   \<and> (\<exists>story. map_of (stories (snd (create_story ts now title genre summary m)))
                  (fst (create_story ts now title genre summary m)) = Some story
         \<and> story_id story = fst (create_story ts now title genre summary m)
         \<and> story_title story = title \<and> story_genre story = genre \<and> story_summary story = summary
         \<and> story_current_word_count story = 0 \<and> story_chapters story = [])
   \<and> (ids_generated m \<longleftrightarrow>
        (\<forall>k \<in> set (dict_keys (stories m)).
           \<exists>i. 1 \<le> i \<and> i \<le> length (stories m)
               \<and> prefix (ascii ''story_'' @ str_int (int i) @ ascii ''_'') k))
   \<and> (ids_generated m \<longrightarrow>
        fst (create_story ts now title genre summary m) \<notin> set (dict_keys (stories m))
        \<and> ids_generated (calls cs m))
   \<and> (file = Absent \<or> file = Invalid \<longrightarrow>
        (\<exists>m0. StoryManager_init now0 file = Some m0 \<and> stories m0 = []
           \<and> ids_generated (calls cs m0)
           \<and> fst (create_story ts now title genre summary (calls cs m0))
               \<notin> set (dict_keys (stories (calls cs m0)))))"
proof (intro conjI impI)
  show "fst (create_story ts now title genre summary m)
     = ascii ''story_'' @ str_int (int (length (stories m)) + 1) @ ascii ''_'' @ str_int ts"
    by (rule create_story_id)
next
  show "\<exists>story. map_of (stories (snd (create_story ts now title genre summary m)))
                  (fst (create_story ts now title genre summary m)) = Some story
         \<and> story_id story = fst (create_story ts now title genre summary m)
         \<and> story_title story = title \<and> story_genre story = genre \<and> story_summary story = summary
         \<and> story_current_word_count story = 0 \<and> story_chapters story = []"
    by (rule create_story_retrievable)
next
  show "ids_generated m \<longleftrightarrow>
        (\<forall>k \<in> set (dict_keys (stories m)).
           \<exists>i. 1 \<le> i \<and> i \<le> length (stories m)
               \<and> prefix (ascii ''story_'' @ str_int (int i) @ ascii ''_'') k)"
    by (rule ids_generated_iff)
next
  assume "ids_generated m"
  then show "fst (create_story ts now title genre summary m) \<notin> set (dict_keys (stories m))"
    by (rule create_story_fresh_id)
next
  assume "ids_generated m"
  then show "ids_generated (calls cs m)" by (rule calls_ids_generated)
next
  assume f: "file = Absent \<or> file = Invalid"
  let ?m0 = "\<lparr> stories = [], current_story_id = None, stories_file = file \<rparr>"
  have "ids_generated ?m0" by (simp add: ids_generated_def dict_keys_def)
  then have g: "ids_generated (calls cs ?m0)" by (rule calls_ids_generated)
  from create_story_fresh_id [OF g]
  have "fst (create_story ts now title genre summary (calls cs ?m0))
               \<notin> set (dict_keys (stories (calls cs ?m0)))" .
  with g StoryManager_init_new [OF f, of now0]
  show "\<exists>m0. StoryManager_init now0 file = Some m0 \<and> stories m0 = []
           \<and> ids_generated (calls cs m0)
           \<and> fst (create_story ts now title genre summary (calls cs m0))
               \<notin> set (dict_keys (stories (calls cs m0)))"
    by simp
qed

lemma example_first_story_keys:
  "dict_keys (stories (calls [CreateStory 7 (ascii ''2024-03-01T00:00:00'') (ascii ''Voyage'')
                                (ascii ''fantasy'') (ascii ''A sea voyage'')]
                         \<lparr> stories = [], current_story_id = None, stories_file = Absent \<rparr>))
     = [ascii ''story_1_7'']"
  by (simp add: create_story_stories create_story_id dict_keys_def str_int_digit ascii_def)

text \<open>
  Two stories created in the same second on a new manager: the ids are \<open>story_1_7\<close> and
  \<open>story_2_7\<close>, and the second story is in the store with no words and no chapters.
\<close>

theorem create_story_fresh_witness:
  "dict_keys (stories (calls [CreateStory 7 (ascii ''2024-03-01T00:00:00'') (ascii ''Voyage'')
                                (ascii ''fantasy'') (ascii ''A sea voyage'')]
                         \<lparr> stories = [], current_story_id = None, stories_file = Absent \<rparr>))
     = [ascii ''story_1_7'']
   \<and> ids_generated (calls [CreateStory 7 (ascii ''2024-03-01T00:00:00'') (ascii ''Voyage'')
                                (ascii ''fantasy'') (ascii ''A sea voyage'')]
                         \<lparr> stories = [], current_story_id = None, stories_file = Absent \<rparr>)
   \<and> fst (create_story 7 (ascii ''2024-03-01T00:00:00'') (ascii ''Return'') (ascii ''fantasy'')
             (ascii ''The way home'')
             (calls [CreateStory 7 (ascii ''2024-03-01T00:00:00'') (ascii ''Voyage'')
                       (ascii ''fantasy'') (ascii ''A sea voyage'')]
                \<lparr> stories = [], current_story_id = None, stories_file = Absent \<rparr>))
     = ascii ''story_2_7''
   \<and> ascii ''story_2_7''
       \<notin> set (dict_keys (stories (calls [CreateStory 7 (ascii ''2024-03-01T00:00:00'') (ascii ''Voyage'')
                                (ascii ''fantasy'') (ascii ''A sea voyage'')]
                         \<lparr> stories = [], current_story_id = None, stories_file = Absent \<rparr>)))
   \<and> (\<exists>story. map_of (stories (snd (create_story 7 (ascii ''2024-03-01T00:00:00'') (ascii ''Return'')
             (ascii ''fantasy'') (ascii ''The way home'')
             (calls [CreateStory 7 (ascii ''2024-03-01T00:00:00'') (ascii ''Voyage'')
                       (ascii ''fantasy'') (ascii ''A sea voyage'')]
                \<lparr> stories = [], current_story_id = None, stories_file = Absent \<rparr>))))
           (ascii ''story_2_7'') = Some story
         \<and> story_title story = ascii ''Return''
         \<and> story_current_word_count story = 0 \<and> story_chapters story = [])"
proof -
  let ?m0 = "\<lparr> stories = [], current_story_id = None, stories_file = Absent \<rparr>"
  let ?now = "ascii ''2024-03-01T00:00:00''"
  let ?cs = "[CreateStory 7 ?now (ascii ''Voyage'') (ascii ''fantasy'') (ascii ''A sea voyage'')]"
  let ?m1 = "calls ?cs ?m0"
  note t0 = create_story_fresh [of 7 ?now "ascii ''Return''" "ascii ''fantasy''"
      "ascii ''The way home''" ?m0 ?cs Absent ?now]
  note t1 = create_story_fresh [of 7 ?now "ascii ''Return''" "ascii ''fantasy''"
      "ascii ''The way home''" ?m1 "[]" Absent ?now]
  have h0: "ids_generated ?m0" by (simp add: ids_generated_def dict_keys_def)
  from t0 [THEN conjunct2, THEN conjunct2, THEN conjunct2, THEN conjunct1, rule_format, OF h0]
  have h1: "ids_generated ?m1" by blast
  have "length (dict_keys (stories ?m1)) = length [ascii ''story_1_7'']"
    by (simp only: example_first_story_keys)
  then have len: "length (stories ?m1) = 1" by (simp add: dict_keys_def del: calls.simps)
  from t1 [THEN conjunct1]
  have sid: "fst (create_story 7 ?now (ascii ''Return'') (ascii ''fantasy'') (ascii ''The way home'') ?m1)
      = ascii ''story_2_7''"
    by (simp only: len) (simp add: str_int_digit ascii_def)
  from t1 [THEN conjunct2, THEN conjunct2, THEN conjunct2, THEN conjunct1, rule_format, OF h1]
  have fresh: "ascii ''story_2_7'' \<notin> set (dict_keys (stories ?m1))"
    by (simp only: sid) blast
  from t1 [THEN conjunct2, THEN conjunct1]
  have got: "\<exists>story. map_of (stories (snd (create_story 7 ?now (ascii ''Return'')
             (ascii ''fantasy'') (ascii ''The way home'') ?m1))) (ascii ''story_2_7'') = Some story
         \<and> story_title story = ascii ''Return''
         \<and> story_current_word_count story = 0 \<and> story_chapters story = []"
    by (simp only: sid) blast
  from example_first_story_keys h1 sid fresh got show ?thesis by blast
qed

end
